theory Spec2Isabelle
  imports Complex_Main "HOL-Library.Finite_Map" "HOL-Library.Sublist"
begin

section \<open>JavaScript values used by the assistant\<close>

subsection \<open>Array and string slicing\<close>

text \<open>
  \<^verbatim>\<open>Array.prototype.slice\<close> and \<^verbatim>\<open>String.prototype.slice\<close> share one index rule: a negative
  index counts from the end, and every index is clamped to \<open>0 .. length\<close>. A missing second
  argument stands for the length.
\<close>

definition js_index :: "nat \<Rightarrow> int \<Rightarrow> nat" where
  "js_index len i = (if i < 0 then nat (max (int len + i) 0) else nat (min i (int len)))"

definition js_slice :: "'a list \<Rightarrow> int \<Rightarrow> int option \<Rightarrow> 'a list" where
  "js_slice xs start fin =
     (let len = length xs;
          k = js_index len start;
          final = (case fin of None \<Rightarrow> len | Some e \<Rightarrow> js_index len e)
      in take (final - k) (drop k xs))"

subsection \<open>Numbers\<close>

text \<open>
  A JavaScript number is \<^verbatim>\<open>NaN\<close>, one of the two infinities, or a finite value. A finite
  value is a real number here, and the two zeros are one. Comparisons are false on \<^verbatim>\<open>NaN\<close>.
  The operations \<open>js_add\<close>, \<open>js_mul\<close>, \<open>js_div\<close> and \<open>js_sqrt\<close> give the exact result, with
  the \<^verbatim>\<open>NaN\<close> and infinity cases of the language; they serve the formula of the diagnose
  script, which the examples use on vectors of zeros and ones, where nothing is rounded.
  What the program computes is the exact result rounded to the binary64 format: the
  rounding is defined after them, and \<open>js_times\<close> is the product as the program computes it.
\<close>

datatype jsnum = NaN | NInf | Fin real | PInf

definition isNaN :: "jsnum \<Rightarrow> bool" where
  "isNaN x = (x = NaN)"

fun js_ge :: "jsnum \<Rightarrow> jsnum \<Rightarrow> bool" where
  "js_ge NaN y = False"
| "js_ge x NaN = False"
| "js_ge PInf y = True"
| "js_ge x NInf = True"
| "js_ge (Fin a) (Fin b) = (b \<le> a)"
| "js_ge (Fin a) PInf = False"
| "js_ge NInf y = False"

fun js_gt :: "jsnum \<Rightarrow> jsnum \<Rightarrow> bool" where
  "js_gt NaN y = False"
| "js_gt x NaN = False"
| "js_gt PInf PInf = False"
| "js_gt PInf y = True"
| "js_gt NInf y = False"
| "js_gt (Fin a) NInf = True"
| "js_gt (Fin a) (Fin b) = (b < a)"
| "js_gt (Fin a) PInf = False"

fun js_neg :: "jsnum \<Rightarrow> jsnum" where
  "js_neg NaN = NaN"
| "js_neg NInf = PInf"
| "js_neg (Fin a) = Fin (- a)"
| "js_neg PInf = NInf"

fun js_add :: "jsnum \<Rightarrow> jsnum \<Rightarrow> jsnum" where
  "js_add NaN y = NaN"
| "js_add x NaN = NaN"
| "js_add PInf NInf = NaN"
| "js_add NInf PInf = NaN"
| "js_add PInf y = PInf"
| "js_add NInf y = NInf"
| "js_add (Fin a) PInf = PInf"
| "js_add (Fin a) NInf = NInf"
| "js_add (Fin a) (Fin b) = Fin (a + b)"

definition js_sub :: "jsnum \<Rightarrow> jsnum \<Rightarrow> jsnum" where
  "js_sub x y = js_add x (js_neg y)"

text \<open>An infinity with the sign of a finite factor; \<^verbatim>\<open>NaN\<close> when the factor is zero.\<close>

definition js_signed_inf :: "real \<Rightarrow> jsnum" where
  "js_signed_inf a = (if a = 0 then NaN else if 0 < a then PInf else NInf)"

fun js_mul :: "jsnum \<Rightarrow> jsnum \<Rightarrow> jsnum" where
  "js_mul NaN y = NaN"
| "js_mul x NaN = NaN"
| "js_mul (Fin a) (Fin b) = Fin (a * b)"
| "js_mul (Fin a) PInf = js_signed_inf a"
| "js_mul (Fin a) NInf = js_signed_inf (- a)"
| "js_mul PInf (Fin b) = js_signed_inf b"
| "js_mul NInf (Fin b) = js_signed_inf (- b)"
| "js_mul PInf PInf = PInf"
| "js_mul NInf NInf = PInf"
| "js_mul PInf NInf = NInf"
| "js_mul NInf PInf = NInf"

text \<open>
  Division: a finite non-zero value over zero is an infinity, zero over zero and an infinity
  over an infinity are \<^verbatim>\<open>NaN\<close>. With one zero, a division by zero takes the sign of the
  dividend.
\<close>

fun js_div :: "jsnum \<Rightarrow> jsnum \<Rightarrow> jsnum" where
  "js_div NaN y = NaN"
| "js_div x NaN = NaN"
| "js_div (Fin a) (Fin b) = (if b = 0 then js_signed_inf a else Fin (a / b))"
| "js_div (Fin a) PInf = Fin 0"
| "js_div (Fin a) NInf = Fin 0"
| "js_div PInf (Fin b) = (if 0 \<le> b then PInf else NInf)"
| "js_div NInf (Fin b) = (if 0 \<le> b then NInf else PInf)"
| "js_div PInf y = NaN"
| "js_div NInf y = NaN"

fun js_sqrt :: "jsnum \<Rightarrow> jsnum" where
  "js_sqrt NaN = NaN"
| "js_sqrt NInf = NaN"
| "js_sqrt (Fin a) = (if a < 0 then NaN else Fin (sqrt a))"
| "js_sqrt PInf = PInf"

text \<open>
  Rounding to binary64, to nearest with ties to the even significand. The exponent of a
  value is that of the power of two at or below it, and not less than -1022 (below that
  the format is subnormal); the value is rounded to a multiple of two to the exponent
  minus 52, which leaves 53 significant bits. A result of \<open>2\<^sup>1\<^sup>0\<^sup>2\<^sup>4\<close> or more is an infinity.
\<close>

definition round_half_even :: "real \<Rightarrow> int" where
  "round_half_even q =
     (let f = \<lfloor>q\<rfloor>; d = q - of_int f
      in if d < 1 / 2 then f else if 1 / 2 < d then f + 1 else if even f then f else f + 1)"

definition binary64_round :: "real \<Rightarrow> real" where
  "binary64_round x =
     (if x = 0 then 0
      else (let e = max \<lfloor>log 2 \<bar>x\<bar>\<rfloor> (- 1022);
                ulp = 2 powr of_int (e - 52)
            in sgn x * of_int (round_half_even (\<bar>x\<bar> / ulp)) * ulp))"

definition binary64 :: "real \<Rightarrow> jsnum" where
  "binary64 x =
     (let r = binary64_round x
      in if 2 ^ 1024 \<le> \<bar>r\<bar> then (if 0 < r then PInf else NInf) else Fin r)"

text \<open>The operator \<^verbatim>\<open>*\<close> of the program: the exact product, rounded.\<close>

definition js_times :: "jsnum \<Rightarrow> jsnum \<Rightarrow> jsnum" where
  "js_times x y = (case js_mul x y of Fin p \<Rightarrow> binary64 p | v \<Rightarrow> v)"

text \<open>
  Reading an array of numbers at an index: out of range gives \<^verbatim>\<open>undefined\<close>, which
  arithmetic converts to \<^verbatim>\<open>NaN\<close>.
\<close>

definition js_nth :: "jsnum list \<Rightarrow> nat \<Rightarrow> jsnum" where
  "js_nth xs i = (if i < length xs then xs ! i else NaN)"

subsection \<open>Sorting\<close>

text \<open>
  \<^verbatim>\<open>Array.prototype.sort\<close> with a comparison function is stable: \<open>x\<close> is moved behind \<open>y\<close>
  only when the comparison of \<open>x\<close> with \<open>y\<close> is positive, and a \<^verbatim>\<open>NaN\<close> comparison counts as
  zero. For a comparison that is a consistent ordering the result of a stable sort is
  unique, so it is given here by insertion from the right. The comparison used below is a
  difference of two scores; the difference of two binary64 values is zero only when they
  are equal and has the sign of the exact difference otherwise, so the order it gives is
  the one of the real numbers.
\<close>

fun js_insort :: "('a \<Rightarrow> 'a \<Rightarrow> jsnum) \<Rightarrow> 'a \<Rightarrow> 'a list \<Rightarrow> 'a list" where
  "js_insort cmp x [] = [x]"
| "js_insort cmp x (y # ys) =
     (if js_gt (cmp x y) (Fin 0) then y # js_insort cmp x ys else x # y # ys)"

definition js_sort :: "('a \<Rightarrow> 'a \<Rightarrow> jsnum) \<Rightarrow> 'a list \<Rightarrow> 'a list" where
  "js_sort cmp xs = foldr (js_insort cmp) xs []"

subsection \<open>Strings\<close>

text \<open>
  A string is a list of characters. The code below only concatenates, measures, slices,
  trims and searches strings, so the range of the character type plays no role; the
  white space that \<^verbatim>\<open>trim\<close> removes is, within that range, tab, line feed, vertical tab,
  form feed, carriage return, space and no-break space.
\<close>

definition is_js_space :: "char \<Rightarrow> bool" where
  "is_js_space c = (of_char c \<in> {9, 10, 11, 12, 13, 32, 160 :: nat})"

definition js_trim :: "string \<Rightarrow> string" where
  "js_trim s = rev (dropWhile is_js_space (rev (dropWhile is_js_space s)))"

fun js_includes :: "string \<Rightarrow> string \<Rightarrow> bool" where
  "js_includes [] sub = (sub = [])"
| "js_includes (c # cs) sub = (take (length sub) (c # cs) = sub \<or> js_includes cs sub)"

fun js_join :: "string \<Rightarrow> string list \<Rightarrow> string" where
  "js_join sep [] = []"
| "js_join sep [x] = x"
| "js_join sep (x # y # ys) = x @ sep @ js_join sep (y # ys)"

text \<open>The decimal digits of a natural number, as a template literal prints an index.\<close>

definition digit_char :: "nat \<Rightarrow> char" where
  "digit_char d = ''0123456789'' ! d"

fun show_nat :: "nat \<Rightarrow> string" where
  "show_nat n = (if n < 10 then [digit_char n] else show_nat (n div 10) @ [digit_char (n mod 10)])"

declare show_nat.simps [simp del]

text \<open>
  \<^verbatim>\<open>Number.prototype.toFixed\<close> with \<open>f\<close> fraction digits. A value that is not finite prints
  by name. Otherwise the sign is split off, and below \<open>10\<^sup>2\<^sup>1\<close> the digits are those of the
  integer \<open>n\<close> nearest to the value times \<open>10\<^sup>f\<close> (the larger one of two), padded with zeros
  to more than \<open>f\<close> digits, with the point before the last \<open>f\<close>. From \<open>10\<^sup>2\<^sup>1\<close> on the
  engine prints the number as \<^verbatim>\<open>String\<close> does, in exponent notation, from its binary digits:
  that printer is the argument \<open>big\<close>.
\<close>

definition toFixed :: "(real \<Rightarrow> string) \<Rightarrow> jsnum \<Rightarrow> nat \<Rightarrow> string" where
  "toFixed big x f =
     (case x of
        NaN \<Rightarrow> ''NaN''
      | PInf \<Rightarrow> ''Infinity''
      | NInf \<Rightarrow> ''-Infinity''
      | Fin r \<Rightarrow>
          (let s = (if r < 0 then ''-'' else '''');
               a = \<bar>r\<bar>
           in if 10 ^ 21 \<le> a then s @ big a
              else (let n = nat \<lfloor>a * 10 ^ f + 1 / 2\<rfloor>;
                        m = show_nat n;
                        m = (if f \<noteq> 0
                             then (let k = length m;
                                       m = (if k \<le> f then replicate (f + 1 - k) CHR ''0'' @ m else m);
                                       k = (if k \<le> f then f + 1 else k)
                                   in take (k - f) m @ ''.'' @ drop (k - f) m)
                             else m)
                    in s @ m)))"

text \<open>
  \<^verbatim>\<open>parseFloat(x.toFixed(f))\<close>: the binary64 number nearest to what the printed digits
  denote, which is the value rounded to \<open>f\<close> fraction digits (the value itself where
  \<^verbatim>\<open>toFixed\<close> prints all of it).
\<close>

definition parseFloat_toFixed :: "jsnum \<Rightarrow> nat \<Rightarrow> jsnum" where
  "parseFloat_toFixed x f =
     (case x of
        Fin r \<Rightarrow>
          (if 10 ^ 21 \<le> \<bar>r\<bar> then Fin r
           else binary64 (sgn r * real (nat \<lfloor>\<bar>r\<bar> * 10 ^ f + 1 / 2\<rfloor>) / 10 ^ f))
      | _ \<Rightarrow> x)"

section \<open>Session store (backend/utils/sessionStore.js)\<close>

text \<open>
  The module keeps one \<^verbatim>\<open>Map\<close> from session id to an array of messages. The map is
  finite, so it is a finite map here; every exported function that mutates it returns the
  new map. The timestamp a message gets is read from the clock by the source; the model
  takes it as an argument.
\<close>

record turn =
  role :: string
  content :: string
  timestamp :: string

type_synonym sessions = "(string, turn list) fmap"

definition MAX_HISTORY_PAIRS :: int where
  "MAX_HISTORY_PAIRS = 5"

definition getHistory :: "sessions \<Rightarrow> string \<Rightarrow> turn list" where
  "getHistory sessions sessionId =
     (case fmlookup sessions sessionId of
        None \<Rightarrow> []
      | Some messages \<Rightarrow> js_slice messages (- (MAX_HISTORY_PAIRS * 2)) None)"

definition addMessage :: "sessions \<Rightarrow> string \<Rightarrow> string \<Rightarrow> string \<Rightarrow> string \<Rightarrow> sessions" where
  "addMessage sessions sessionId r c now =
     (let sessions1 = (if sessionId |\<notin>| fmdom sessions then fmupd sessionId [] sessions
                       else sessions)
      in case fmlookup sessions1 sessionId of
           None \<Rightarrow> sessions1
         | Some messages \<Rightarrow>
             fmupd sessionId (messages @ [\<lparr>role = r, content = c, timestamp = now\<rparr>]) sessions1)"

definition createSession :: "sessions \<Rightarrow> string \<Rightarrow> sessions" where
  "createSession sessions sessionId = fmupd sessionId [] sessions"

definition clearSession :: "sessions \<Rightarrow> string \<Rightarrow> sessions" where
  "clearSession sessions sessionId = fmupd sessionId [] sessions"

definition sessionExists :: "sessions \<Rightarrow> string \<Rightarrow> bool" where
  "sessionExists sessions sessionId = (sessionId |\<in>| fmdom sessions)"

definition getSessionCount :: "sessions \<Rightarrow> nat" where
  "getSessionCount sessions = fcard (fmdom sessions)"

text \<open>
  The array stored for a session id, empty when the id is unknown. This is an observation
  of the store used to state the theorems; the source has no such function.
\<close>

definition stored_turns :: "sessions \<Rightarrow> string \<Rightarrow> turn list" where
  "stored_turns sessions sessionId =
     (case fmlookup sessions sessionId of None \<Rightarrow> [] | Some messages \<Rightarrow> messages)"

text \<open>
  The two consecutive \<^verbatim>\<open>addMessage\<close> calls by which the chat handler of server.js persists
  one exchange: the user message, then the reply under the role \<^verbatim>\<open>model\<close>.
\<close>

record exchange =
  ex_message :: string
  ex_reply :: string
  ex_user_time :: string
  ex_model_time :: string

definition persist :: "string \<Rightarrow> sessions \<Rightarrow> exchange \<Rightarrow> sessions" where
  "persist sessionId sessions e =
     addMessage (addMessage sessions sessionId ''user'' (ex_message e) (ex_user_time e))
       sessionId ''model'' (ex_reply e) (ex_model_time e)"

definition exchange_turns :: "exchange \<Rightarrow> turn list" where
  "exchange_turns e =
     [\<lparr>role = ''user'', content = ex_message e, timestamp = ex_user_time e\<rparr>,
      \<lparr>role = ''model'', content = ex_reply e, timestamp = ex_model_time e\<rparr>]"

section \<open>Similarity ranking (backend/utils/vector_math.js)\<close>

text \<open>
  A vector is an array of numbers; an embedding that is missing (\<^verbatim>\<open>undefined\<close> or \<^verbatim>\<open>null\<close>)
  is \<open>None\<close>. The records are the elements of the vector store and the scored projections
  that \<^verbatim>\<open>retrieveTopK\<close> builds from them.
\<close>

type_synonym vec = "jsnum list"

record embedded_chunk =
  ec_id :: string
  ec_docId :: string
  ec_title :: string
  ec_chunkIndex :: nat
  ec_content :: string
  ec_embedding :: "vec option"

record scored_chunk =
  sc_id :: string
  sc_title :: string
  sc_content :: string
  sc_score :: jsnum

text \<open>
  \<^verbatim>\<open>getSimilarity\<close> calls \<^verbatim>\<open>cosineSimilarity\<close> of the package compute-cosine-similarity, which is
  not part of the repository: it is the argument \<open>cs\<close>, any function from two arrays to a
  number. The guard before the call lets only two present arrays of equal length through.
\<close>

definition getSimilarity :: "(vec \<Rightarrow> vec \<Rightarrow> jsnum) \<Rightarrow> vec option \<Rightarrow> vec option \<Rightarrow> jsnum" where
  "getSimilarity cs vecA vecB =
     (case vecA of
        None \<Rightarrow> Fin 0
      | Some a \<Rightarrow>
          (case vecB of
             None \<Rightarrow> Fin 0
           | Some b \<Rightarrow>
               if length a \<noteq> length b then Fin 0
               else (let result = cs a b in if isNaN result then Fin 0 else result)))"

definition scoreChunk :: "(vec \<Rightarrow> vec \<Rightarrow> jsnum) \<Rightarrow> vec option \<Rightarrow> embedded_chunk \<Rightarrow> scored_chunk" where
  "scoreChunk cs queryVector doc =
     \<lparr>sc_id = ec_id doc, sc_title = ec_title doc, sc_content = ec_content doc,
      sc_score = getSimilarity cs queryVector (ec_embedding doc)\<rparr>"

text \<open>
  \<open>k\<close> is the number of results to return, a count; \<open>threshold\<close> is any number. Both have
  defaults in the source that apply only when the caller leaves the argument out; every
  caller passes both.
\<close>

definition retrieveTopK ::
  "(vec \<Rightarrow> vec \<Rightarrow> jsnum) \<Rightarrow> vec option \<Rightarrow> embedded_chunk list \<Rightarrow> nat \<Rightarrow> jsnum \<Rightarrow> scored_chunk list"
where
  "retrieveTopK cs queryVector documents k threshold =
     (let scored = map (scoreChunk cs queryVector) documents
      in js_slice
           (js_sort (\<lambda>a b. js_sub (sc_score b) (sc_score a))
              (filter (\<lambda>doc. js_ge (sc_score doc) threshold) scored))
           0 (Some (int k)))"

subsection \<open>A package result that is not a number\<close>

text \<open>
  \<^verbatim>\<open>getSimilarity\<close> once more, for a package function whose result is a number or
  \<^verbatim>\<open>null\<close>. The source is the same three lines; the difference is in \<^verbatim>\<open>isNaN\<close>, which
  converts its argument to a number first: \<^verbatim>\<open>null\<close> converts to 0, so \<^verbatim>\<open>isNaN(null)\<close> is
  false. Where the package answers with a number this is \<open>getSimilarity\<close> above.
\<close>

datatype js_result = Null | Num jsnum

definition isNaN_value :: "js_result \<Rightarrow> bool" where
  "isNaN_value v = (case v of Null \<Rightarrow> False | Num x \<Rightarrow> isNaN x)"

definition getSimilarity_value ::
  "(vec \<Rightarrow> vec \<Rightarrow> js_result) \<Rightarrow> vec option \<Rightarrow> vec option \<Rightarrow> js_result"
where
  "getSimilarity_value cs vecA vecB =
     (case vecA of
        None \<Rightarrow> Num (Fin 0)
      | Some a \<Rightarrow>
          (case vecB of
             None \<Rightarrow> Num (Fin 0)
           | Some b \<Rightarrow>
               if length a \<noteq> length b then Num (Fin 0)
               else (let result = cs a b in if isNaN_value result then Num (Fin 0) else result)))"

subsection \<open>The repository's own cosine similarity (diagnose script)\<close>

text \<open>
  The diagnose script computes a cosine similarity of its own: the dot product divided by
  the product of the magnitudes. \<^verbatim>\<open>reduce\<close> runs over the first array with its indices, and
  reads the second array at each index. This is not the function that \<^verbatim>\<open>getSimilarity\<close>
  calls; the examples below take it for the package function, on vectors of zeros and ones.
\<close>

definition dotProduct :: "vec \<Rightarrow> vec \<Rightarrow> jsnum" where
  "dotProduct a b =
     foldl (\<lambda>sum (val, i). js_add sum (js_mul val (js_nth b i))) (Fin 0) (zip a [0..<length a])"

definition magnitude :: "vec \<Rightarrow> jsnum" where
  "magnitude a = js_sqrt (foldl (\<lambda>sum val. js_add sum (js_mul val val)) (Fin 0) a)"

definition cosineSimilarity :: "vec \<Rightarrow> vec \<Rightarrow> jsnum" where
  "cosineSimilarity a b = js_div (dotProduct a b) (js_mul (magnitude a) (magnitude b))"

section \<open>The RAG pipeline (backend/utils/rag.js)\<close>

definition TOP_K_RESULTS :: nat where
  "TOP_K_RESULTS = 3"

subsection \<open>Prompt\<close>

text \<open>
  The two arrow functions that \<^verbatim>\<open>buildPrompt\<close> maps over the chunks (with their indices) and
  over the history, then the function itself.
\<close>

definition contextEntry :: "(real \<Rightarrow> string) \<Rightarrow> scored_chunk \<Rightarrow> nat \<Rightarrow> string" where
  \<open>contextEntry big chunk i =
     ''['' @ show_nat (i + 1) @ ''] (Source: "'' @ sc_title chunk @ ''", Relevance: ''
       @ toFixed big (js_times (sc_score chunk) (Fin 100)) 1 @ ''%)\<newline>'' @ sc_content chunk\<close>

definition historyEntry :: "turn \<Rightarrow> string" where
  "historyEntry m = (if role m = ''user'' then ''User'' else ''Assistant'') @ '': '' @ content m"

definition contextBlock :: "(real \<Rightarrow> string) \<Rightarrow> scored_chunk list \<Rightarrow> string" where
  "contextBlock big retrievedChunks =
     (if length retrievedChunks > 0
      then js_join ''\<newline>\<newline>''
             (map (\<lambda>(chunk, i). contextEntry big chunk i)
                  (zip retrievedChunks [0..<length retrievedChunks]))
      else ''No relevant context found.'')"

definition historyBlock :: "turn list \<Rightarrow> string" where
  "historyBlock history =
     (if length history > 0 then js_join ''\<newline>'' (map historyEntry history)
      else ''No previous conversation.'')"

definition buildPrompt :: "(real \<Rightarrow> string) \<Rightarrow> scored_chunk list \<Rightarrow> turn list \<Rightarrow> string \<Rightarrow> string" where
  \<open>buildPrompt big retrievedChunks history userMessage =
     ''You are a helpful, accurate support assistant. Your responses must be based ONLY on the provided context below. \<newline>''
     @ ''If the context does not contain enough information to answer the question, honestly say: "I don't have enough information in my knowledge base to answer that question accurately. Please contact support for further help."\<newline>''
     @ ''Do NOT make up information or use outside knowledge.\<newline>''
     @ ''\<newline>''
     @ ''---\<newline>''
     @ ''CONTEXT FROM KNOWLEDGE BASE:\<newline>''
     @ contextBlock big retrievedChunks @ ''\<newline>''
     @ ''\<newline>''
     @ ''---\<newline>''
     @ ''CONVERSATION HISTORY:\<newline>''
     @ historyBlock history @ ''\<newline>''
     @ ''\<newline>''
     @ ''---\<newline>''
     @ ''USER QUESTION:\<newline>''
     @ userMessage @ ''\<newline>''
     @ ''\<newline>''
     @ ''ANSWER:''\<close>

subsection \<open>Providers and the pipeline\<close>

text \<open>
  The embedding and chat models are external: each is a function from its input to an
  error (what the call throws) or a result. The embedding result is the \<^verbatim>\<open>values\<close> array,
  which may be missing. A chat response has the reply text, whose getter can throw, and
  optional usage counts. The calls a run makes are returned with its result, in order, so
  that a theorem can say which provider was called. The threshold has a default in the
  source for a caller that leaves it out; the handler always passes it.
\<close>

datatype js_error = Error string

fun message :: "js_error \<Rightarrow> string" where
  "message (Error m) = m"

record usage_metadata =
  promptTokenCount :: "nat option"
  candidatesTokenCount :: "nat option"

record llm_response =
  response_text :: "js_error + string"
  usageMetadata :: "usage_metadata option"

datatype provider_call = EmbedContent string | GenerateContent string

record externals =
  embedContent :: "string \<Rightarrow> js_error + vec option"
  generateContent :: "string \<Rightarrow> js_error + llm_response"
  cosineSimilarityPackage :: "vec \<Rightarrow> vec \<Rightarrow> jsnum"
  numberToString :: "real \<Rightarrow> string"

record score_entry =
  se_title :: string
  se_score :: jsnum

record rag_result =
  reply :: string
  tokensUsed :: nat
  retrievedChunks :: nat
  scores :: "score_entry list"
  fallback :: bool

text \<open>\<^verbatim>\<open>x || 0\<close> on an optional count.\<close>

definition or_zero :: "nat option \<Rightarrow> nat" where
  "or_zero x = (case x of None \<Rightarrow> 0 | Some n \<Rightarrow> n)"

definition runRAGPipeline ::
  "externals \<Rightarrow> string \<Rightarrow> embedded_chunk list \<Rightarrow> turn list \<Rightarrow> jsnum
     \<Rightarrow> (js_error + rag_result) \<times> provider_call list"
where
  "runRAGPipeline ext userMessage vectorStore history threshold =
     (case embedContent ext userMessage of
        Inl err \<Rightarrow>
          (Inl (Error (''Embedding API error: '' @ message err)), [EmbedContent userMessage])
      | Inr queryEmbedding \<Rightarrow>
          (let topChunks = retrieveTopK (cosineSimilarityPackage ext) queryEmbedding vectorStore
                             TOP_K_RESULTS threshold
           in if length topChunks = 0
              then (Inr \<lparr>reply = ''I'm sorry, I couldn't find relevant information in my knowledge base to answer your question. For more help, please contact our support team at support@company.com.'',
                         tokensUsed = 0, retrievedChunks = 0, scores = [], fallback = True\<rparr>,
                    [EmbedContent userMessage])
              else (let prompt = buildPrompt (numberToString ext) topChunks history userMessage;
                        calls = [EmbedContent userMessage, GenerateContent prompt]
                    in case generateContent ext prompt of
                         Inl err \<Rightarrow> (Inl (Error (''LLM API error: '' @ message err)), calls)
                       | Inr llmResponse \<Rightarrow>
                           (case response_text llmResponse of
                              Inl err \<Rightarrow> (Inl err, calls)
                            | Inr r \<Rightarrow>
                                (Inr \<lparr>reply = r,
                                      tokensUsed =
                                        (case usageMetadata llmResponse of
                                           Some u \<Rightarrow> or_zero (promptTokenCount u)
                                                      + or_zero (candidatesTokenCount u)
                                         | None \<Rightarrow> 0),
                                      retrievedChunks = length topChunks,
                                      scores = map (\<lambda>c. \<lparr>se_title = sc_title c,
                                                          se_score = parseFloat_toFixed (sc_score c) 4\<rparr>)
                                                   topChunks,
                                      fallback = False\<rparr>,
                                 calls)))))"

subsection \<open>The prompt layout as the specification words it\<close>

text \<open>
  The specification describes the context block as an enumeration of the chunks, each as
  \<^verbatim>\<open>[index] (Source: "<title>", Relevance: <score*100 to 1 decimal>%)\<close>, a line break and the
  content, with a 1-based index, in the order given; and the history block as one line
  \<^verbatim>\<open><User|Assistant>: <content>\<close> per turn. These definitions follow that wording: the index
  is a counter that starts at 1, and the relevance is printed from the integer number of
  tenths nearest to the product of the score and 100 (the larger one of two nearest), the
  product being the program's. They are compared with \<^verbatim>\<open>buildPrompt\<close> below.
\<close>

definition spec_one_decimal :: "real \<Rightarrow> string" where
  "spec_one_decimal x =
     (let tenths = nat \<lfloor>\<bar>x\<bar> * 10 + 1 / 2\<rfloor>
      in (if x < 0 then ''-'' else '''') @ show_nat (tenths div 10) @ ''.''
           @ [digit_char (tenths mod 10)])"

fun spec_context_entries :: "nat \<Rightarrow> scored_chunk list \<Rightarrow> string list" where
  "spec_context_entries index [] = []"
| \<open>spec_context_entries index (chunk # chunks) =
     (''['' @ show_nat index @ ''] (Source: "'' @ sc_title chunk @ ''", Relevance: ''
        @ (case js_times (sc_score chunk) (Fin 100) of Fin p \<Rightarrow> spec_one_decimal p | _ \<Rightarrow> [])
        @ ''%)'' @ ''\<newline>'' @ sc_content chunk)
     # spec_context_entries (index + 1) chunks\<close>

definition spec_history_line :: "turn \<Rightarrow> string" where
  "spec_history_line t =
     (if role t = ''user'' then ''User: '' @ content t else ''Assistant: '' @ content t)"

text \<open>The number that a string of decimal digits denotes.\<close>

definition read_nat :: "string \<Rightarrow> nat" where
  "read_nat s = foldl (\<lambda>acc c. 10 * acc + (of_char c - 48)) 0 s"

text \<open>
  The scores that \<^verbatim>\<open>toFixed\<close> prints with digits and a point: those whose product with 100
  is finite and below \<open>10\<^sup>2\<^sup>1\<close> in absolute value. A cosine similarity, between -1 and 1,
  is such a score.
\<close>

definition printable_score :: "jsnum \<Rightarrow> bool" where
  "printable_score x = (case js_times x (Fin 100) of Fin p \<Rightarrow> \<bar>p\<bar> < 10 ^ 21 | _ \<Rightarrow> False)"

section \<open>The chat handler (backend/server.js)\<close>

text \<open>
  A field of the request body is missing, a value that is not a string, or a string. The
  handler answers with an error status and text, or with the pipeline's result and the
  latency. The clock is read four times: before and after the pipeline, and once for each
  stored message.
\<close>

datatype body_field = Missing | NotAString | Str string

record chat_body =
  body_sessionId :: body_field
  body_message :: body_field

datatype http_response = ErrorJson nat string | ChatJson rag_result int

record clock =
  t_start :: int
  t_end :: int
  t_user :: string
  t_model :: string

text \<open>The check \<^verbatim>\<open>!x || typeof x !== 'string'\<close>, negated: the string, when it is a non-empty one.\<close>

definition nonempty_string :: "body_field \<Rightarrow> string option" where
  "nonempty_string x = (case x of Str s \<Rightarrow> (if s = [] then None else Some s) | _ \<Rightarrow> None)"

definition classify_error :: "js_error \<Rightarrow> http_response" where
  "classify_error err =
     (if js_includes (message err) ''API key''
      then ErrorJson 401 ''Invalid API key. Check your GEMINI_API_KEY.''
      else if js_includes (message err) ''quota'' \<or> js_includes (message err) ''rate''
      then ErrorJson 429 ''Rate limit exceeded. Please try again later.''
      else if js_includes (message err) ''timeout'' \<or> js_includes (message err) ''ETIMEDOUT''
      then ErrorJson 504 ''Request to AI provider timed out. Please retry.''
      else ErrorJson 500 ''An internal error occurred. Please try again.'')"

definition chat_handler ::
  "externals \<Rightarrow> embedded_chunk list \<Rightarrow> jsnum \<Rightarrow> clock \<Rightarrow> sessions \<Rightarrow> chat_body
     \<Rightarrow> http_response \<times> sessions \<times> provider_call list"
where
  "chat_handler ext vectorStore SIMILARITY_THRESHOLD clk sessions body =
     (case nonempty_string (body_sessionId body) of
        None \<Rightarrow> (ErrorJson 400 ''sessionId is required and must be a string.'', sessions, [])
      | Some sessionId \<Rightarrow>
          (case nonempty_string (body_message body) of
             None \<Rightarrow> (ErrorJson 400 ''message is required and must be a string.'', sessions, [])
           | Some msg \<Rightarrow>
               (let trimmedMessage = js_trim msg
                in if length trimmedMessage = 0
                   then (ErrorJson 400 ''message cannot be empty.'', sessions, [])
                   else if length trimmedMessage > 2000
                   then (ErrorJson 400 ''message is too long (max 2000 characters).'', sessions, [])
                   else (let sessions1 = (if \<not> sessionExists sessions sessionId
                                          then createSession sessions sessionId else sessions);
                             history = getHistory sessions1 sessionId;
                             (result, calls) = runRAGPipeline ext trimmedMessage vectorStore history
                                                 SIMILARITY_THRESHOLD
                         in case result of
                              Inr r \<Rightarrow>
                                (ChatJson r (t_end clk - t_start clk),
                                 persist sessionId sessions1
                                   \<lparr>ex_message = trimmedMessage, ex_reply = reply r,
                                    ex_user_time = t_user clk, ex_model_time = t_model clk\<rparr>,
                                 calls)
                            | Inl err \<Rightarrow> (classify_error err, sessions1, calls)))))"

section \<open>Chunking (backend/scripts/ingest.js)\<close>

definition CHUNK_SIZE_CHARS :: int where
  "CHUNK_SIZE_CHARS = 1500"

definition CHUNK_OVERLAP_CHARS :: int where
  "CHUNK_OVERLAP_CHARS = 200"

text \<open>
  The \<^verbatim>\<open>while\<close> loop of \<^verbatim>\<open>chunkText\<close>, with its two variables \<open>start\<close> and \<open>chunks\<close> as
  arguments. Nothing in the source bounds the number of rounds, so the loop is a partial
  function: \<open>None\<close> is a run that never returns. The source has no error exit. Sizes and
  positions are integers, and \<open>start\<close> can become negative, where \<^verbatim>\<open>slice\<close> counts from the
  end of the text.
\<close>

partial_function (option) chunk_loop ::
  "string \<Rightarrow> int \<Rightarrow> int \<Rightarrow> int \<Rightarrow> string list \<Rightarrow> string list option"
where
  "chunk_loop text chunkSize overlap start chunks =
     (if start < int (length text)
      then (let fin = min (start + chunkSize) (int (length text));
                chunks1 = chunks @ [js_trim (js_slice text start (Some fin))]
            in if fin = int (length text) then Some chunks1
               else chunk_loop text chunkSize overlap (start + (chunkSize - overlap)) chunks1)
      else Some chunks)"

definition chunkText :: "string \<Rightarrow> int \<Rightarrow> int \<Rightarrow> string list option" where
  "chunkText text chunkSize overlap = chunk_loop text chunkSize overlap 0 []"

subsection \<open>The windows of the loop, and the coverage the specification words\<close>

text \<open>
  The same loop, collecting each slice as it is before \<^verbatim>\<open>trim\<close>: the windows of the text
  that the chunks are cut from. The source has no such function; it is what the coverage
  property is about.
\<close>

partial_function (option) window_loop ::
  "string \<Rightarrow> int \<Rightarrow> int \<Rightarrow> int \<Rightarrow> string list \<Rightarrow> string list option"
where
  "window_loop text chunkSize overlap start windows =
     (if start < int (length text)
      then (let fin = min (start + chunkSize) (int (length text));
                windows1 = windows @ [js_slice text start (Some fin)]
            in if fin = int (length text) then Some windows1
               else window_loop text chunkSize overlap (start + (chunkSize - overlap)) windows1)
      else Some windows)"

text \<open>
  Concatenation with the overlap regions de-duplicated: the first piece whole, and every
  later piece without its first \<open>overlap\<close> characters, which repeat the end of the piece
  before it.
\<close>

fun remove_overlap :: "nat \<Rightarrow> string list \<Rightarrow> string" where
  "remove_overlap overlap [] = []"
| "remove_overlap overlap (w # ws) = w @ concat (map (drop overlap) ws)"

section \<open>Properties of the session store\<close>

lemma js_slice_last: "0 < n \<Longrightarrow> js_slice xs (- int n) None = drop (length xs - n) xs"
proof -
  assume "0 < n"
  moreover have "nat (max (int (length xs) - int n) 0) = length xs - n"
    by linarith
  ultimately show ?thesis
    by (simp add: js_slice_def js_index_def Let_def)
qed

lemma stored_turns_addMessage:
  "stored_turns (addMessage s sid r c t) sid' =
     (if sid' = sid then stored_turns s sid @ [\<lparr>role = r, content = c, timestamp = t\<rparr>]
      else stored_turns s sid')"
  by (auto simp: stored_turns_def addMessage_def Let_def fmlookup_dom_iff
           split: option.splits)

lemma stored_turns_persist:
  "stored_turns (persist sid s e) sid' =
     (if sid' = sid then stored_turns s sid @ exchange_turns e else stored_turns s sid')"
  by (simp add: persist_def stored_turns_addMessage exchange_turns_def)

lemma stored_turns_exchanges:
  "stored_turns (foldl (persist sid) s es) sid = stored_turns s sid @ concat (map exchange_turns es)"
  by (induction es arbitrary: s) (simp_all add: stored_turns_persist)

lemma getHistory_stored:
  "getHistory s sid = drop (length (stored_turns s sid) - 10) (stored_turns s sid)"
proof (cases "fmlookup s sid")
  case None
  then show ?thesis by (simp add: getHistory_def stored_turns_def)
next
  case (Some ms)
  have "js_slice ms (- int 10) None = drop (length ms - 10) ms"
    by (rule js_slice_last) simp
  with Some show ?thesis
    by (simp add: getHistory_def stored_turns_def MAX_HISTORY_PAIRS_def)
qed

lemma length_concat_exchange_turns: "length (concat (map exchange_turns es)) = 2 * length es"
  by (induction es) (simp_all add: exchange_turns_def)

text \<open>
  C7. \<^verbatim>\<open>getHistory\<close> returns the last ten stored turns (all of them when there are fewer),
  in stored order, so never more than five pairs. Appending never removes a stored turn.
  After seven exchanges in a session that started empty, all fourteen turns are stored and
  \<^verbatim>\<open>getHistory\<close> returns exactly the ten turns of the last five exchanges, in order.
\<close>

theorem getHistory_last_five_pairs:
  "getHistory s sid = drop (length (stored_turns s sid) - 10) (stored_turns s sid)
   \<and> length (getHistory s sid) \<le> 10
   \<and> suffix (getHistory s sid) (stored_turns s sid)
   \<and> stored_turns (addMessage s sid r c t) sid
       = stored_turns s sid @ [\<lparr>role = r, content = c, timestamp = t\<rparr>]
   \<and> (length es = 7 \<and> stored_turns s sid = [] \<longrightarrow>
        stored_turns (foldl (persist sid) s es) sid = concat (map exchange_turns es)
        \<and> length (stored_turns (foldl (persist sid) s es) sid) = 14
        \<and> getHistory (foldl (persist sid) s es) sid = concat (map exchange_turns (drop 2 es))
        \<and> length (getHistory (foldl (persist sid) s es) sid) = 10)"
proof -
  have a: "getHistory s sid = drop (length (stored_turns s sid) - 10) (stored_turns s sid)"
    by (rule getHistory_stored)
  have b: "length (getHistory s sid) \<le> 10"
    by (simp add: a)
  have c: "suffix (getHistory s sid) (stored_turns s sid)"
    by (simp add: a suffix_drop)
  have d: "stored_turns (addMessage s sid r c t) sid
             = stored_turns s sid @ [\<lparr>role = r, content = c, timestamp = t\<rparr>]"
    by (simp add: stored_turns_addMessage)
  have e: "stored_turns (foldl (persist sid) s es) sid = concat (map exchange_turns es)
           \<and> length (stored_turns (foldl (persist sid) s es) sid) = 14
           \<and> getHistory (foldl (persist sid) s es) sid = concat (map exchange_turns (drop 2 es))
           \<and> length (getHistory (foldl (persist sid) s es) sid) = 10"
    if len: "length es = 7" and emp: "stored_turns s sid = []"
  proof -
    let ?s' = "foldl (persist sid) s es"
    have st: "stored_turns ?s' sid = concat (map exchange_turns es)"
      by (simp add: stored_turns_exchanges emp)
    have l14: "length (stored_turns ?s' sid) = 14"
      by (simp add: st length_concat_exchange_turns len)
    have split: "es = take 2 es @ drop 2 es"
      by simp
    have "concat (map exchange_turns es)
            = concat (map exchange_turns (take 2 es)) @ concat (map exchange_turns (drop 2 es))"
      by (subst split) (simp only: map_append concat_append)
    moreover have "length (concat (map exchange_turns (take 2 es))) = 4"
      by (simp only: length_concat_exchange_turns) (simp add: len)
    ultimately have dr: "drop 4 (concat (map exchange_turns es))
                           = concat (map exchange_turns (drop 2 es))"
      by simp
    have "length (concat (map exchange_turns es)) - 10 = 4"
      by (simp add: length_concat_exchange_turns len)
    with dr have gh: "getHistory ?s' sid = concat (map exchange_turns (drop 2 es))"
      by (simp add: getHistory_stored [of ?s' sid] st)
    have "length (getHistory ?s' sid) = 10"
      by (simp only: gh length_concat_exchange_turns) (simp add: len)
    with st l14 gh show ?thesis by simp
  qed
  from a b c d e show ?thesis by blast
qed

theorem getHistory_last_five_pairs_witness:
  "getHistory (foldl (persist ''s1'') fmempty
       (map (\<lambda>n. \<lparr>ex_message = [n], ex_reply = [n, n], ex_user_time = [], ex_model_time = []\<rparr>)
            ''abcdefg'')) ''s1''
     = concat (map exchange_turns
         (map (\<lambda>n. \<lparr>ex_message = [n], ex_reply = [n, n], ex_user_time = [], ex_model_time = []\<rparr>)
            ''cdefg''))"
  using getHistory_last_five_pairs [of fmempty "''s1''" _ _ _
      "map (\<lambda>n. \<lparr>ex_message = [n], ex_reply = [n, n], ex_user_time = [], ex_model_time = []\<rparr>)
           ''abcdefg''"]
  by (simp add: stored_turns_def)

text \<open>
  C10. \<^verbatim>\<open>clearSession\<close> on an id the store does not hold creates an empty session for it:
  afterwards the id exists, its history is empty and the session count is one larger.
\<close>

theorem clearSession_creates_session:
  "\<not> sessionExists s sid \<Longrightarrow>
     sessionExists (clearSession s sid) sid
     \<and> getSessionCount (clearSession s sid) = getSessionCount s + 1
     \<and> getHistory (clearSession s sid) sid = []"
  by (simp add: sessionExists_def clearSession_def getSessionCount_def getHistory_def
                js_slice_def js_index_def fcard_finsert_disjoint)

theorem clearSession_creates_session_witness:
  "\<not> sessionExists fmempty ''fresh''
   \<and> sessionExists (clearSession fmempty ''fresh'') ''fresh''
   \<and> getSessionCount (clearSession fmempty ''fresh'') = 1
   \<and> getSessionCount (fmempty :: sessions) = 0"
  using clearSession_creates_session [of fmempty "''fresh''"]
  by (simp add: sessionExists_def getSessionCount_def)

section \<open>Properties of the similarity ranking\<close>

subsection \<open>Similarity\<close>

lemma getSimilarity_not_NaN: "getSimilarity cs vecA vecB \<noteq> NaN"
  by (simp add: getSimilarity_def isNaN_def Let_def split: option.splits)

lemma getSimilarity_value_number:
  "getSimilarity_value (\<lambda>a b. Num (cs a b)) vecA vecB = Num (getSimilarity cs vecA vecB)"
  by (simp add: getSimilarity_value_def getSimilarity_def isNaN_value_def Let_def
           split: option.splits)

text \<open>
  C5. What \<^verbatim>\<open>getSimilarity\<close> returns on degenerate inputs, for every package function. A
  missing vector, two vectors of different lengths and a \<^verbatim>\<open>NaN\<close> result of the package give
  exactly 0, and the result is never \<^verbatim>\<open>NaN\<close>. Every other result of the package is returned
  as it is: where the package answers \<^verbatim>\<open>null\<close>, which compute-cosine-similarity does for two
  empty arrays, \<^verbatim>\<open>getSimilarity\<close> returns \<^verbatim>\<open>null\<close> and not the 0 that the claim asks for. The
  check \<^verbatim>\<open>isNaN(result)\<close> misses that case.
\<close>

theorem getSimilarity_value_degenerate:
  "getSimilarity_value cs None vecB = Num (Fin 0)
   \<and> getSimilarity_value cs vecA None = Num (Fin 0)
   \<and> (length a \<noteq> length b \<longrightarrow> getSimilarity_value cs (Some a) (Some b) = Num (Fin 0))
   \<and> (cs a b = Num NaN \<longrightarrow> getSimilarity_value cs (Some a) (Some b) = Num (Fin 0))
   \<and> (length a = length b \<and> cs a b \<noteq> Num NaN \<longrightarrow>
        getSimilarity_value cs (Some a) (Some b) = cs a b)
   \<and> (cs [] [] = Null \<longrightarrow> getSimilarity_value cs (Some []) (Some []) = Null)
   \<and> getSimilarity_value cs vecA vecB \<noteq> Num NaN"
proof -
  have nan: "isNaN_value v \<longleftrightarrow> v = Num NaN" for v
    by (cases v) (simp_all add: isNaN_value_def isNaN_def)
  have "getSimilarity_value cs vecA None = Num (Fin 0)"
    by (simp add: getSimilarity_value_def split: option.splits)
  moreover have "getSimilarity_value cs vecA vecB \<noteq> Num NaN"
    by (simp add: getSimilarity_value_def nan Let_def split: option.splits)
  ultimately show ?thesis
    by (simp add: getSimilarity_value_def nan Let_def)
qed

theorem getSimilarity_value_degenerate_witness:
  "getSimilarity_value (\<lambda>a b. if a = [] then Null else Num NaN) (Some []) (Some []) = Null
   \<and> getSimilarity_value (\<lambda>a b. if a = [] then Null else Num NaN)
        (Some [Fin 0, Fin 0]) (Some [Fin 3, Fin 4]) = Num (Fin 0)
   \<and> getSimilarity_value (\<lambda>a b. if a = [] then Null else Num NaN)
        (Some [Fin 1, Fin 2]) (Some [Fin 1]) = Num (Fin 0)"
  using getSimilarity_value_degenerate
          [of "\<lambda>a b. if a = [] then Null else Num NaN" _ _ "[Fin 0, Fin 0]" "[Fin 3, Fin 4]"]
        getSimilarity_value_degenerate
          [of "\<lambda>a b. if a = [] then Null else Num NaN" _ _ "[Fin 1, Fin 2]" "[Fin 1]"]
  by simp

subsection \<open>Sorting with a comparison of scores\<close>


lemma js_slice_take: "js_slice xs 0 (Some (int k)) = take k xs"
  by (simp add: js_slice_def js_index_def Let_def min_def)

lemma js_ge_refl: "x \<noteq> NaN \<Longrightarrow> js_ge x x"
  by (cases x) simp_all

lemma js_ge_trans: "js_ge x y \<Longrightarrow> js_ge y z \<Longrightarrow> js_ge x z"
  by (cases x; cases y; cases z) simp_all

lemma js_gt_sub_ge: "js_gt (js_sub y x) (Fin 0) \<Longrightarrow> js_ge y x"
  by (cases x; cases y) (simp_all add: js_sub_def)

lemma not_js_gt_sub_ge: "x \<noteq> NaN \<Longrightarrow> y \<noteq> NaN \<Longrightarrow> \<not> js_gt (js_sub y x) (Fin 0) \<Longrightarrow> js_ge x y"
  by (cases x; cases y) (simp_all add: js_sub_def)

lemma not_js_gt_sub_self: "\<not> js_gt (js_sub x x) (Fin 0)"
  by (cases x) (simp_all add: js_sub_def)

lemma set_js_insort: "set (js_insort cmp x ys) = insert x (set ys)"
  by (induction ys) auto

lemma length_js_insort: "length (js_insort cmp x ys) = Suc (length ys)"
  by (induction ys) auto

lemma set_js_sort: "set (js_sort cmp xs) = set xs"
  by (induction xs) (simp_all add: js_sort_def set_js_insort)

lemma length_js_sort: "length (js_sort cmp xs) = length xs"
  by (induction xs) (simp_all add: js_sort_def length_js_insort)

lemma sorted_js_insort:
  assumes "sorted_wrt (\<lambda>a b. js_ge (f a) (f b)) ys"
    and "f x \<noteq> NaN" and "\<forall>y \<in> set ys. f y \<noteq> NaN"
  shows "sorted_wrt (\<lambda>a b. js_ge (f a) (f b)) (js_insort (\<lambda>a b. js_sub (f b) (f a)) x ys)"
  using assms
proof (induction ys)
  case Nil
  then show ?case by simp
next
  case (Cons y ys)
  show ?case
  proof (cases "js_gt (js_sub (f y) (f x)) (Fin 0)")
    case True
    then have "js_ge (f y) (f x)" by (rule js_gt_sub_ge)
    with True Cons show ?thesis by (auto simp: set_js_insort)
  next
    case False
    with Cons.prems have xy: "js_ge (f x) (f y)"
      by (simp add: not_js_gt_sub_ge)
    have "js_ge (f x) (f z)" if "z \<in> set ys" for z
      using xy Cons.prems(1) that by (auto intro: js_ge_trans)
    with False xy Cons.prems(1) show ?thesis by auto
  qed
qed

lemma sorted_js_sort:
  "\<forall>x \<in> set xs. f x \<noteq> NaN \<Longrightarrow>
     sorted_wrt (\<lambda>a b. js_ge (f a) (f b)) (js_sort (\<lambda>a b. js_sub (f b) (f a)) xs)"
proof (induction xs)
  case Nil
  then show ?case by (simp add: js_sort_def)
next
  case (Cons x xs)
  then have "sorted_wrt (\<lambda>a b. js_ge (f a) (f b)) (js_sort (\<lambda>a b. js_sub (f b) (f a)) xs)"
    by simp
  then have "sorted_wrt (\<lambda>a b. js_ge (f a) (f b))
               (js_insort (\<lambda>a b. js_sub (f b) (f a)) x (js_sort (\<lambda>a b. js_sub (f b) (f a)) xs))"
    using Cons.prems by (intro sorted_js_insort) (simp_all add: set_js_sort)
  then show ?case by (simp add: js_sort_def)
qed

lemma filter_tie_js_insort:
  "filter (\<lambda>c. f c = v) (js_insort (\<lambda>a b. js_sub (f b) (f a)) x ys)
     = (if f x = v then x # filter (\<lambda>c. f c = v) ys else filter (\<lambda>c. f c = v) ys)"
  by (induction ys) (auto simp: not_js_gt_sub_self)

lemma filter_tie_js_sort:
  "filter (\<lambda>c. f c = v) (js_sort (\<lambda>a b. js_sub (f b) (f a)) xs) = filter (\<lambda>c. f c = v) xs"
  by (induction xs) (simp_all add: js_sort_def filter_tie_js_insort)

lemma sc_score_scoreChunk: "sc_score (scoreChunk cs q d) = getSimilarity cs q (ec_embedding d)"
  by (simp add: scoreChunk_def)

text \<open>
  C2. \<^verbatim>\<open>retrieveTopK\<close> returns at most \<open>k\<close> chunks, each with a score that is at least the
  threshold, in descending order of score. Ties are broken by the order of the store: for
  every score \<open>v\<close>, the returned chunks with that score are the first ones of the store
  with that score, in store order.
\<close>

theorem retrieveTopK_ranking:
  "length (retrieveTopK cs q docs k thr) \<le> k
   \<and> list_all (\<lambda>c. js_ge (sc_score c) thr) (retrieveTopK cs q docs k thr)
   \<and> sorted_wrt (\<lambda>a b. js_ge (sc_score a) (sc_score b)) (retrieveTopK cs q docs k thr)
   \<and> prefix (filter (\<lambda>c. sc_score c = v) (retrieveTopK cs q docs k thr))
             (filter (\<lambda>c. sc_score c = v) (map (scoreChunk cs q) docs))"
proof -
  let ?cmp = "\<lambda>a b. js_sub (sc_score b) (sc_score a)"
  let ?pass = "filter (\<lambda>doc. js_ge (sc_score doc) thr) (map (scoreChunk cs q) docs)"
  have r: "retrieveTopK cs q docs k thr = take k (js_sort ?cmp ?pass)"
    by (simp add: retrieveTopK_def js_slice_take)
  have len: "length (retrieveTopK cs q docs k thr) \<le> k"
    by (simp add: r)
  have "set (retrieveTopK cs q docs k thr) \<subseteq> set ?pass"
    unfolding r using set_take_subset [of k "js_sort ?cmp ?pass"] by (simp add: set_js_sort)
  then have thr: "list_all (\<lambda>c. js_ge (sc_score c) thr) (retrieveTopK cs q docs k thr)"
    by (auto simp: list_all_iff)
  have "\<forall>x \<in> set ?pass. sc_score x \<noteq> NaN"
    by (auto simp: sc_score_scoreChunk getSimilarity_not_NaN)
  then have "sorted_wrt (\<lambda>a b. js_ge (sc_score a) (sc_score b)) (js_sort ?cmp ?pass)"
    by (rule sorted_js_sort)
  then have srt: "sorted_wrt (\<lambda>a b. js_ge (sc_score a) (sc_score b)) (retrieveTopK cs q docs k thr)"
    unfolding r by (rule sorted_wrt_take)
  have "prefix (filter (\<lambda>c. sc_score c = v) (take k (js_sort ?cmp ?pass)))
               (filter (\<lambda>c. sc_score c = v) (js_sort ?cmp ?pass))"
    by (intro filter_mono_prefix take_is_prefix)
  also have "filter (\<lambda>c. sc_score c = v) (js_sort ?cmp ?pass) = filter (\<lambda>c. sc_score c = v) ?pass"
    by (rule filter_tie_js_sort)
  also have "prefix (filter (\<lambda>c. sc_score c = v) ?pass)
                    (filter (\<lambda>c. sc_score c = v) (map (scoreChunk cs q) docs))"
  proof (cases "js_ge v thr")
    case True
    then have "filter (\<lambda>c. sc_score c = v) ?pass
                 = filter (\<lambda>c. sc_score c = v) (map (scoreChunk cs q) docs)"
      by (auto intro: filter_cong)
    then show ?thesis by simp
  next
    case False
    then have "filter (\<lambda>c. sc_score c = v) ?pass = []"
      by (auto simp: filter_empty_conv)
    then show ?thesis by simp
  qed
  finally have stab: "prefix (filter (\<lambda>c. sc_score c = v) (retrieveTopK cs q docs k thr))
                             (filter (\<lambda>c. sc_score c = v) (map (scoreChunk cs q) docs))"
    by (simp add: r)
  from len thr srt stab show ?thesis by simp
qed

text \<open>
  An example with a tie: three chunks score 1, one chunk scores 0 and one has an embedding
  of the wrong length. With \<open>k = 2\<close> the first two of the three are returned, in store order.
\<close>

lemma retrieveTopK_example:
  "retrieveTopK cosineSimilarity (Some [Fin 1, Fin 0])
     [\<lparr>ec_id = ''a-chunk-1'', ec_docId = ''a'', ec_title = ''A'', ec_chunkIndex = 0,
       ec_content = ''orthogonal'', ec_embedding = Some [Fin 0, Fin 1]\<rparr>,
      \<lparr>ec_id = ''b-chunk-1'', ec_docId = ''b'', ec_title = ''B'', ec_chunkIndex = 0,
       ec_content = ''same direction'', ec_embedding = Some [Fin 1, Fin 0]\<rparr>,
      \<lparr>ec_id = ''c-chunk-1'', ec_docId = ''c'', ec_title = ''C'', ec_chunkIndex = 0,
       ec_content = ''wrong length'', ec_embedding = Some [Fin 1]\<rparr>,
      \<lparr>ec_id = ''d-chunk-1'', ec_docId = ''d'', ec_title = ''D'', ec_chunkIndex = 0,
       ec_content = ''same direction again'', ec_embedding = Some [Fin 1, Fin 0]\<rparr>,
      \<lparr>ec_id = ''e-chunk-1'', ec_docId = ''e'', ec_title = ''E'', ec_chunkIndex = 0,
       ec_content = ''and again'', ec_embedding = Some [Fin 1, Fin 0]\<rparr>]
     2 (Fin (65 / 100))
   = [\<lparr>sc_id = ''b-chunk-1'', sc_title = ''B'', sc_content = ''same direction'', sc_score = Fin 1\<rparr>,
      \<lparr>sc_id = ''d-chunk-1'', sc_title = ''D'', sc_content = ''same direction again'',
       sc_score = Fin 1\<rparr>]"
  by (simp add: retrieveTopK_def scoreChunk_def getSimilarity_def cosineSimilarity_def
        dotProduct_def magnitude_def js_nth_def isNaN_def js_sort_def js_sub_def
        js_slice_def js_index_def upt_rec)

text \<open>
  C8 as stated fails: a chunk whose similarity equals the threshold passes the filter, but
  the cut to the first \<open>k\<close> can drop it. With \<open>k = 1\<close> and threshold 0, the second chunk
  below has similarity exactly 0 and is not returned, because the first chunk scores 1.
\<close>

theorem retrieveTopK_threshold_counterexample:
  "getSimilarity cosineSimilarity (Some [Fin 1, Fin 0])
       (ec_embedding
          \<lparr>ec_id = ''b-chunk-1'', ec_docId = ''b'', ec_title = ''B'', ec_chunkIndex = 0,
           ec_content = ''second'', ec_embedding = Some [Fin 0, Fin 1]\<rparr>) = Fin 0
   \<and> retrieveTopK cosineSimilarity (Some [Fin 1, Fin 0])
        [\<lparr>ec_id = ''a-chunk-1'', ec_docId = ''a'', ec_title = ''A'', ec_chunkIndex = 0,
          ec_content = ''first'', ec_embedding = Some [Fin 1, Fin 0]\<rparr>,
         \<lparr>ec_id = ''b-chunk-1'', ec_docId = ''b'', ec_title = ''B'', ec_chunkIndex = 0,
          ec_content = ''second'', ec_embedding = Some [Fin 0, Fin 1]\<rparr>]
        1 (Fin 0)
      = [\<lparr>sc_id = ''a-chunk-1'', sc_title = ''A'', sc_content = ''first'', sc_score = Fin 1\<rparr>]
   \<and> scoreChunk cosineSimilarity (Some [Fin 1, Fin 0])
        \<lparr>ec_id = ''b-chunk-1'', ec_docId = ''b'', ec_title = ''B'', ec_chunkIndex = 0,
         ec_content = ''second'', ec_embedding = Some [Fin 0, Fin 1]\<rparr>
      \<notin> set (retrieveTopK cosineSimilarity (Some [Fin 1, Fin 0])
        [\<lparr>ec_id = ''a-chunk-1'', ec_docId = ''a'', ec_title = ''A'', ec_chunkIndex = 0,
          ec_content = ''first'', ec_embedding = Some [Fin 1, Fin 0]\<rparr>,
         \<lparr>ec_id = ''b-chunk-1'', ec_docId = ''b'', ec_title = ''B'', ec_chunkIndex = 0,
          ec_content = ''second'', ec_embedding = Some [Fin 0, Fin 1]\<rparr>]
        1 (Fin 0))"
  by (simp add: retrieveTopK_def scoreChunk_def getSimilarity_def cosineSimilarity_def
        dotProduct_def magnitude_def js_nth_def isNaN_def js_sort_def js_sub_def
        js_slice_def js_index_def upt_rec)

text \<open>
  C8, amended. A chunk of the store whose similarity equals the threshold is returned
  whenever at most \<open>k\<close> chunks of the store reach the threshold (so always for a store of
  one chunk and \<open>k \<ge> 1\<close>): the filter is \<open>\<ge>\<close>, not \<open>>\<close>.
\<close>

theorem retrieveTopK_threshold_included:
  assumes "doc \<in> set docs"
    and "getSimilarity cs q (ec_embedding doc) = thr"
    and "length (filter (\<lambda>d. js_ge (getSimilarity cs q (ec_embedding d)) thr) docs) \<le> k"
  shows "scoreChunk cs q doc \<in> set (retrieveTopK cs q docs k thr)"
proof -
  let ?cmp = "\<lambda>a b. js_sub (sc_score b) (sc_score a)"
  let ?pass = "filter (\<lambda>c. js_ge (sc_score c) thr) (map (scoreChunk cs q) docs)"
  have "?pass = map (scoreChunk cs q) (filter (\<lambda>d. js_ge (getSimilarity cs q (ec_embedding d)) thr) docs)"
    by (simp add: filter_map o_def sc_score_scoreChunk)
  with assms(3) have "length (js_sort ?cmp ?pass) \<le> k"
    by (simp add: length_js_sort)
  then have "retrieveTopK cs q docs k thr = js_sort ?cmp ?pass"
    by (simp add: retrieveTopK_def js_slice_take)
  moreover have "js_ge (sc_score (scoreChunk cs q doc)) thr"
    using assms(2) getSimilarity_not_NaN [of cs q "ec_embedding doc"]
    by (simp add: sc_score_scoreChunk js_ge_refl)
  ultimately show ?thesis
    using assms(1) by (simp add: set_js_sort)
qed

theorem retrieveTopK_threshold_included_witness:
  "scoreChunk cosineSimilarity (Some [Fin 1, Fin 0])
      \<lparr>ec_id = ''b-chunk-1'', ec_docId = ''b'', ec_title = ''B'', ec_chunkIndex = 0,
       ec_content = ''second'', ec_embedding = Some [Fin 0, Fin 1]\<rparr>
    \<in> set (retrieveTopK cosineSimilarity (Some [Fin 1, Fin 0])
        [\<lparr>ec_id = ''a-chunk-1'', ec_docId = ''a'', ec_title = ''A'', ec_chunkIndex = 0,
          ec_content = ''first'', ec_embedding = Some [Fin 1, Fin 0]\<rparr>,
         \<lparr>ec_id = ''b-chunk-1'', ec_docId = ''b'', ec_title = ''B'', ec_chunkIndex = 0,
          ec_content = ''second'', ec_embedding = Some [Fin 0, Fin 1]\<rparr>]
        2 (Fin 0))"
  by (rule retrieveTopK_threshold_included [where thr = "Fin 0"])
     (simp_all add: getSimilarity_def cosineSimilarity_def
        dotProduct_def magnitude_def js_nth_def isNaN_def upt_rec)

section \<open>Properties of the prompt and the pipeline\<close>

subsection \<open>Printing numbers\<close>

lemma show_nat_lt10: "n < 10 \<Longrightarrow> show_nat n = [digit_char n]"
  by (simp add: show_nat.simps)

lemma show_nat_ge10: "10 \<le> n \<Longrightarrow> show_nat n = show_nat (n div 10) @ [digit_char (n mod 10)]"
  by (subst show_nat.simps) simp

lemma length_show_nat_le1: "length (show_nat n) \<le> 1 \<longleftrightarrow> n < 10"
proof (cases "n < 10")
  case True
  then show ?thesis by (simp add: show_nat_lt10)
next
  case False
  have "10 \<le> n div 10 \<or> n div 10 < 10" by linarith
  then have "show_nat (n div 10) \<noteq> []"
    by (auto simp: show_nat_lt10 show_nat_ge10)
  then have "length (show_nat (n div 10)) \<noteq> 0"
    by simp
  with False show ?thesis by (simp add: show_nat_ge10)
qed

lemma of_char_digit_char: "d < 10 \<Longrightarrow> of_char (digit_char d) = (48 + d :: nat)"
proof -
  assume "d < 10"
  then have "d \<in> {0, 1, 2, 3, 4, 5, 6, 7, 8, 9}" by auto
  then show ?thesis
    by (auto simp: digit_char_def)
qed

lemma read_nat_snoc: "read_nat (s @ [c]) = 10 * read_nat s + (of_char c - 48)"
  by (simp add: read_nat_def)

lemma read_nat_show_nat: "read_nat (show_nat n) = n"
proof (induction n rule: show_nat.induct)
  case (1 n)
  show ?case
  proof (cases "n < 10")
    case True
    then show ?thesis
      by (simp add: show_nat_lt10 read_nat_def of_char_digit_char)
  next
    case False
    with 1 have "read_nat (show_nat (n div 10)) = n div 10" by simp
    with False show ?thesis
      by (simp add: show_nat_ge10 read_nat_snoc of_char_digit_char)
  qed
qed

lemma toFixed_one_decimal:
  assumes "\<bar>x\<bar> < 10 ^ 21"
  shows "toFixed big (Fin x) 1 = spec_one_decimal x"
proof -
  define n where "n = nat \<lfloor>\<bar>x\<bar> * 10 + 1 / 2\<rfloor>"
  define sg :: string where "sg = (if x < 0 then ''-'' else [])"
  from assms have small: "\<not> 10 ^ 21 \<le> \<bar>x\<bar>" by simp
  have tf: "toFixed big (Fin x) 1 =
              sg @ (let m = show_nat n; k = length m;
                        m = (if k \<le> 1 then replicate (1 + 1 - k) CHR ''0'' @ m else m);
                        k = (if k \<le> 1 then 1 + 1 else k)
                    in take (k - 1) m @ ''.'' @ drop (k - 1) m)"
    using small by (simp add: toFixed_def Let_def n_def sg_def)
  have sp: "spec_one_decimal x = sg @ show_nat (n div 10) @ ''.'' @ [digit_char (n mod 10)]"
    by (simp add: spec_one_decimal_def Let_def n_def sg_def)
  show ?thesis
  proof (cases "n < 10")
    case True
    then have "show_nat n = [digit_char n]" "n div 10 = 0" "n mod 10 = n"
      by (simp_all add: show_nat_lt10)
    then show ?thesis
      unfolding tf sp by (simp add: Let_def show_nat_lt10 digit_char_def)
  next
    case False
    then have "\<not> length (show_nat n) \<le> 1"
      using length_show_nat_le1 [of n] by blast
    moreover from False have "show_nat n = show_nat (n div 10) @ [digit_char (n mod 10)]"
      by (simp add: show_nat_ge10)
    ultimately show ?thesis
      unfolding tf sp by (simp add: Let_def)
  qed
qed

lemma spec_one_decimal_nearest:
  "\<bar>real (nat \<lfloor>\<bar>x\<bar> * 10 + 1 / 2\<rfloor>) - \<bar>x\<bar> * 10\<bar> \<le> 1 / 2"
proof -
  have "0 \<le> \<lfloor>\<bar>x\<bar> * 10 + 1 / 2\<rfloor>" by simp
  then have "real (nat \<lfloor>\<bar>x\<bar> * 10 + 1 / 2\<rfloor>) = of_int \<lfloor>\<bar>x\<bar> * 10 + 1 / 2\<rfloor>"
    by simp
  then show ?thesis by linarith
qed

subsection \<open>Rounded products\<close>

lemma binary64_round_binade:
  assumes "2 ^ k \<le> \<bar>x\<bar>" and "\<bar>x\<bar> < 2 ^ Suc k" and "k \<le> 52"
  shows "binary64_round x
           = sgn x * of_int (round_half_even (\<bar>x\<bar> * 2 ^ (52 - k))) / 2 ^ (52 - k)"
proof -
  have "(0::real) < 2 ^ k" by simp
  with assms(1) have pos: "0 < \<bar>x\<bar>" by linarith
  then have nz: "x \<noteq> 0" by simp
  have p1: "2 powr real_of_int (int k) = 2 ^ k"
    by (simp add: powr_realpow)
  have "real_of_int (int k + 1) = real (Suc k)"
    by simp
  then have p2: "2 powr real_of_int (int k + 1) = 2 ^ Suc k"
    by (simp only: powr_realpow [of 2] zero_less_numeral)
  have "2 powr real_of_int (int k) \<le> \<bar>x\<bar> \<and> \<bar>x\<bar> < 2 powr real_of_int (int k + 1)"
    unfolding p1 p2 using assms(1,2) by blast
  then have fl: "\<lfloor>log 2 \<bar>x\<bar>\<rfloor> = int k"
    using floor_log_eq_powr_iff [of "\<bar>x\<bar>" 2 "int k"] pos by simp
  have "real_of_int (int k - 52) = - real (52 - k)"
    using assms(3) by (simp add: of_nat_diff)
  then have "2 powr real_of_int (int k - 52) = 2 powr (- real (52 - k))"
    by (simp only:)
  also have "\<dots> = 1 / 2 ^ (52 - k)"
    by (simp only: powr_minus_divide powr_realpow [of 2] zero_less_numeral)
  finally have ulp: "2 powr real_of_int (int k - 52) = 1 / 2 ^ (52 - k)" .
  have "max \<lfloor>log 2 \<bar>x\<bar>\<rfloor> (- 1022) = int k"
    unfolding fl by simp
  then have "binary64_round x
      = sgn x * of_int (round_half_even (\<bar>x\<bar> / (1 / 2 ^ (52 - k)))) * (1 / 2 ^ (52 - k))"
    using nz by (simp only: binary64_round_def Let_def ulp if_False)
  then show ?thesis
    by simp
qed

lemma binary64_round_binade_below:
  assumes "1 / 2 ^ Suc k \<le> \<bar>x\<bar>" and "\<bar>x\<bar> < 1 / 2 ^ k" and "k < 1022"
  shows "binary64_round x
           = sgn x * of_int (round_half_even (\<bar>x\<bar> * 2 ^ (53 + k))) / 2 ^ (53 + k)"
proof -
  have "(0::real) < 1 / 2 ^ Suc k" by simp
  with assms(1) have pos: "0 < \<bar>x\<bar>" by linarith
  then have nz: "x \<noteq> 0" by simp
  have "real_of_int (- int (Suc k)) = - real (Suc k)"
    by simp
  then have "2 powr real_of_int (- int (Suc k)) = 2 powr (- real (Suc k))"
    by (simp only:)
  also have "\<dots> = 1 / 2 ^ Suc k"
    by (simp only: powr_minus_divide powr_realpow [of 2] zero_less_numeral)
  finally have p1: "2 powr real_of_int (- int (Suc k)) = 1 / 2 ^ Suc k" .
  have "real_of_int (- int (Suc k) + 1) = - real k"
    by simp
  then have "2 powr real_of_int (- int (Suc k) + 1) = 2 powr (- real k)"
    by (simp only:)
  also have "\<dots> = 1 / 2 ^ k"
    by (simp only: powr_minus_divide powr_realpow [of 2] zero_less_numeral)
  finally have p2: "2 powr real_of_int (- int (Suc k) + 1) = 1 / 2 ^ k" .
  have "2 powr real_of_int (- int (Suc k)) \<le> \<bar>x\<bar>
        \<and> \<bar>x\<bar> < 2 powr real_of_int (- int (Suc k) + 1)"
    unfolding p1 p2 using assms(1,2) by blast
  then have fl: "\<lfloor>log 2 \<bar>x\<bar>\<rfloor> = - int (Suc k)"
    using floor_log_eq_powr_iff [of "\<bar>x\<bar>" 2 "- int (Suc k)"] pos by simp
  have "real_of_int (- int (Suc k) - 52) = - real (53 + k)"
    by simp
  then have "2 powr real_of_int (- int (Suc k) - 52) = 2 powr (- real (53 + k))"
    by (simp only:)
  also have "\<dots> = 1 / 2 ^ (53 + k)"
    by (simp only: powr_minus_divide powr_realpow [of 2] zero_less_numeral)
  finally have ulp: "2 powr real_of_int (- int (Suc k) - 52) = 1 / 2 ^ (53 + k)" .
  have "max \<lfloor>log 2 \<bar>x\<bar>\<rfloor> (- 1022) = - int (Suc k)"
    unfolding fl using assms(3) by simp
  then have "binary64_round x
      = sgn x * of_int (round_half_even (\<bar>x\<bar> / (1 / 2 ^ (53 + k)))) * (1 / 2 ^ (53 + k))"
    using nz by (simp only: binary64_round_def Let_def ulp if_False)
  then show ?thesis
    by simp
qed

text \<open>
  Four scores, each the binary64 number nearest to a decimal: 0.87, 0.6525, 0.0225 and
  0.005. The exact products with 100 lie just beside 87, 65.25, 2.25 and 0.5, and round to
  them.
\<close>

lemma js_times_087:
  "js_times (Fin (7836263351624663 / 9007199254740992)) (Fin 100) = Fin 87"
proof -
  have "round_half_even (7836263351624663 / 9007199254740992 * 100 * 2 ^ 46) = 6122080743456768"
    by (simp add: round_half_even_def Let_def)
  moreover have "binary64_round (7836263351624663 / 9007199254740992 * 100)
          = sgn (7836263351624663 / 9007199254740992 * 100 :: real)
            * of_int (round_half_even (\<bar>7836263351624663 / 9007199254740992 * 100\<bar> * 2 ^ (52 - 6)))
            / 2 ^ (52 - 6)"
    by (rule binary64_round_binade) simp_all
  ultimately have "binary64_round (7836263351624663 / 9007199254740992 * 100) = 87"
    by simp
  then show ?thesis
    by (simp add: js_times_def binary64_def)
qed

lemma js_times_06525:
  "js_times (Fin (5877197513718497 / 9007199254740992)) (Fin 100) = Fin (261 / 4)"
proof -
  have "round_half_even (5877197513718497 / 9007199254740992 * 100 * 2 ^ 46) = 4591560557592576"
    by (simp add: round_half_even_def Let_def)
  moreover have "binary64_round (5877197513718497 / 9007199254740992 * 100)
          = sgn (5877197513718497 / 9007199254740992 * 100 :: real)
            * of_int (round_half_even (\<bar>5877197513718497 / 9007199254740992 * 100\<bar> * 2 ^ (52 - 6)))
            / 2 ^ (52 - 6)"
    by (rule binary64_round_binade) simp_all
  ultimately have "binary64_round (5877197513718497 / 9007199254740992 * 100) = 261 / 4"
    by simp
  then show ?thesis
    by (simp add: js_times_def binary64_def)
qed

lemma js_times_00225:
  "js_times (Fin (3242591731706757 / 144115188075855872)) (Fin 100) = Fin (9 / 4)"
proof -
  have "round_half_even (3242591731706757 / 144115188075855872 * 100 * 2 ^ 51) = 5066549580791808"
    by (simp add: round_half_even_def Let_def)
  moreover have "binary64_round (3242591731706757 / 144115188075855872 * 100)
          = sgn (3242591731706757 / 144115188075855872 * 100 :: real)
            * of_int (round_half_even (\<bar>3242591731706757 / 144115188075855872 * 100\<bar> * 2 ^ (52 - 1)))
            / 2 ^ (52 - 1)"
    by (rule binary64_round_binade) simp_all
  ultimately have "binary64_round (3242591731706757 / 144115188075855872 * 100) = 9 / 4"
    by simp
  then show ?thesis
    by (simp add: js_times_def binary64_def)
qed

lemma js_times_0005:
  "js_times (Fin (5764607523034235 / 1152921504606846976)) (Fin 100) = Fin (1 / 2)"
proof -
  have "round_half_even (5764607523034235 / 1152921504606846976 * 100 * 2 ^ 53) = 4503599627370496"
    by (simp add: round_half_even_def Let_def)
  moreover have "binary64_round (5764607523034235 / 1152921504606846976 * 100)
          = sgn (5764607523034235 / 1152921504606846976 * 100 :: real)
            * of_int (round_half_even (\<bar>5764607523034235 / 1152921504606846976 * 100\<bar> * 2 ^ (53 + 0)))
            / 2 ^ (53 + 0)"
    by (rule binary64_round_binade_below) simp_all
  ultimately have "binary64_round (5764607523034235 / 1152921504606846976 * 100) = 1 / 2"
    by simp
  then show ?thesis
    by (simp add: js_times_def binary64_def)
qed

subsection \<open>Prompt layout\<close>

lemma contextEntry_spec:
  "list_all (\<lambda>c. printable_score (sc_score c)) chunks \<Longrightarrow>
     map (\<lambda>(chunk, i). contextEntry big chunk i) (zip chunks [k..<k + length chunks])
       = spec_context_entries (k + 1) chunks"
proof (induction chunks arbitrary: k)
  case Nil
  then show ?case by simp
next
  case (Cons c cs)
  from Cons.prems obtain p where p: "js_times (sc_score c) (Fin 100) = Fin p" "\<bar>p\<bar> < 10 ^ 21"
    by (auto simp: printable_score_def split: jsnum.splits)
  have upt: "[k..<k + length (c # cs)] = k # [Suc k..<Suc k + length cs]"
    by (subst upt_rec) simp
  have "map (\<lambda>(chunk, i). contextEntry big chunk i) (zip cs [Suc k..<Suc k + length cs])
          = spec_context_entries (Suc k + 1) cs"
    using Cons.prems by (intro Cons.IH) simp
  moreover have "toFixed big (Fin p) 1 = spec_one_decimal p"
    using toFixed_one_decimal [of p big] p(2) by simp
  ultimately show ?case
    unfolding upt by (simp add: contextEntry_def p(1))
qed

lemma contextBlock_spec:
  assumes "list_all (\<lambda>c. printable_score (sc_score c)) chunks"
  shows "contextBlock big chunks =
           (if chunks = [] then ''No relevant context found.''
            else js_join ''\<newline>\<newline>'' (spec_context_entries 1 chunks))"
  using contextEntry_spec [OF assms, of big 0] by (simp add: contextBlock_def)

lemma historyBlock_spec:
  "historyBlock history =
     (if history = [] then ''No previous conversation.''
      else js_join ''\<newline>'' (map spec_history_line history))"
proof -
  have "historyEntry = spec_history_line"
    by (rule ext) (simp add: historyEntry_def spec_history_line_def)
  then show ?thesis by (simp add: historyBlock_def)
qed

text \<open>
  C9. The context block of \<^verbatim>\<open>buildPrompt\<close> is the enumeration the specification describes
  (1-based index, source title, relevance to one decimal, line break, content; entries in
  the order given, separated by an empty line), for chunks whose scores print as decimals.
  The relevance is the one-decimal form of the product of the score and 100 as the program
  computes it, rounded to binary64. The history block is one line \<^verbatim>\<open>User: ...\<close> or
  \<^verbatim>\<open>Assistant: ...\<close> per turn in the order given, and the placeholder
  \<^verbatim>\<open>No previous conversation.\<close> for an empty history. The prompt holds the context block,
  then the history block, then the question. The printed index denotes the index, and the
  printed tenths are the integer nearest to ten times the value.
\<close>

theorem buildPrompt_layout:
  "(list_all (\<lambda>c. printable_score (sc_score c)) chunks \<longrightarrow>
      contextBlock big chunks =
        (if chunks = [] then ''No relevant context found.''
         else js_join ''\<newline>\<newline>'' (spec_context_entries 1 chunks)))
   \<and> historyBlock history =
        (if history = [] then ''No previous conversation.''
         else js_join ''\<newline>'' (map spec_history_line history))
   \<and> (\<exists>pre. buildPrompt big chunks history question =
          pre @ ''CONTEXT FROM KNOWLEDGE BASE:\<newline>'' @ contextBlock big chunks
              @ ''\<newline>\<newline>---\<newline>CONVERSATION HISTORY:\<newline>'' @ historyBlock history
              @ ''\<newline>\<newline>---\<newline>USER QUESTION:\<newline>'' @ question
              @ ''\<newline>\<newline>ANSWER:'')
   \<and> read_nat (show_nat n) = n
   \<and> \<bar>real (nat \<lfloor>\<bar>x\<bar> * 10 + 1 / 2\<rfloor>) - \<bar>x\<bar> * 10\<bar> \<le> 1 / 2"
proof -
  have "\<exists>pre. buildPrompt big chunks history question =
          pre @ ''CONTEXT FROM KNOWLEDGE BASE:\<newline>'' @ contextBlock big chunks
              @ ''\<newline>\<newline>---\<newline>CONVERSATION HISTORY:\<newline>'' @ historyBlock history
              @ ''\<newline>\<newline>---\<newline>USER QUESTION:\<newline>'' @ question
              @ ''\<newline>\<newline>ANSWER:''"
    unfolding buildPrompt_def
    by (rule exI [of _ "take 392 (buildPrompt big chunks history question)"])
       (simp add: buildPrompt_def)
  then show ?thesis
    using contextBlock_spec [of chunks big] historyBlock_spec [of history]
      read_nat_show_nat [of n] spec_one_decimal_nearest [of x]
    by blast
qed

theorem buildPrompt_layout_witness:
  \<open>list_all (\<lambda>c. printable_score (sc_score c))
     [\<lparr>sc_id = ''pw-chunk-1'', sc_title = ''Password Reset'', sc_content = ''Open Settings.'',
       sc_score = Fin (7836263351624663 / 9007199254740992)\<rparr>,
      \<lparr>sc_id = ''ac-chunk-1'', sc_title = ''Accounts'', sc_content = ''Sign in first.'',
       sc_score = Fin (5877197513718497 / 9007199254740992)\<rparr>,
      \<lparr>sc_id = ''bi-chunk-1'', sc_title = ''Billing'', sc_content = ''See invoices.'',
       sc_score = Fin (3242591731706757 / 144115188075855872)\<rparr>,
      \<lparr>sc_id = ''fq-chunk-1'', sc_title = ''FAQ'', sc_content = ''Ask support.'',
       sc_score = Fin (5764607523034235 / 1152921504606846976)\<rparr>]
   \<and> contextBlock (\<lambda>x. [])
       [\<lparr>sc_id = ''pw-chunk-1'', sc_title = ''Password Reset'', sc_content = ''Open Settings.'',
         sc_score = Fin (7836263351624663 / 9007199254740992)\<rparr>,
        \<lparr>sc_id = ''ac-chunk-1'', sc_title = ''Accounts'', sc_content = ''Sign in first.'',
         sc_score = Fin (5877197513718497 / 9007199254740992)\<rparr>,
        \<lparr>sc_id = ''bi-chunk-1'', sc_title = ''Billing'', sc_content = ''See invoices.'',
         sc_score = Fin (3242591731706757 / 144115188075855872)\<rparr>,
        \<lparr>sc_id = ''fq-chunk-1'', sc_title = ''FAQ'', sc_content = ''Ask support.'',
         sc_score = Fin (5764607523034235 / 1152921504606846976)\<rparr>]
     = ''[1] (Source: "Password Reset", Relevance: 87.0%)\<newline>Open Settings.\<newline>\<newline>[2] (Source: "Accounts", Relevance: 65.3%)\<newline>Sign in first.\<newline>\<newline>[3] (Source: "Billing", Relevance: 2.3%)\<newline>See invoices.\<newline>\<newline>[4] (Source: "FAQ", Relevance: 0.5%)\<newline>Ask support.''
   \<and> historyBlock
       [\<lparr>role = ''user'', content = ''hi'', timestamp = ''t1''\<rparr>,
        \<lparr>role = ''model'', content = ''hello'', timestamp = ''t2''\<rparr>]
     = ''User: hi\<newline>Assistant: hello''
   \<and> historyBlock [] = ''No previous conversation.''\<close>
proof -
  let ?chunks = "[\<lparr>sc_id = ''pw-chunk-1'', sc_title = ''Password Reset'',
                    sc_content = ''Open Settings.'',
                    sc_score = Fin (7836263351624663 / 9007199254740992)\<rparr>,
                  \<lparr>sc_id = ''ac-chunk-1'', sc_title = ''Accounts'',
                    sc_content = ''Sign in first.'',
                    sc_score = Fin (5877197513718497 / 9007199254740992)\<rparr>,
                  \<lparr>sc_id = ''bi-chunk-1'', sc_title = ''Billing'',
                    sc_content = ''See invoices.'',
                    sc_score = Fin (3242591731706757 / 144115188075855872)\<rparr>,
                  \<lparr>sc_id = ''fq-chunk-1'', sc_title = ''FAQ'',
                    sc_content = ''Ask support.'',
                    sc_score = Fin (5764607523034235 / 1152921504606846976)\<rparr>]"
  let ?history = "[\<lparr>role = ''user'', content = ''hi'', timestamp = ''t1''\<rparr>,
                   \<lparr>role = ''model'', content = ''hello'', timestamp = ''t2''\<rparr>]"
  note products = js_times_087 js_times_06525 js_times_00225 js_times_0005
  have p: "list_all (\<lambda>c. printable_score (sc_score c)) ?chunks"
    by (simp add: printable_score_def products)
  have d: "spec_one_decimal 87 = ''87.0''" "spec_one_decimal (261 / 4) = ''65.3''"
          "spec_one_decimal (9 / 4) = ''2.3''" "spec_one_decimal (1 / 2) = ''0.5''"
    by (simp_all add: spec_one_decimal_def Let_def show_nat_lt10 show_nat_ge10 digit_char_def)
  have e: \<open>spec_context_entries 1 ?chunks =
      [''[1] (Source: "Password Reset", Relevance: 87.0%)\<newline>Open Settings.'',
       ''[2] (Source: "Accounts", Relevance: 65.3%)\<newline>Sign in first.'',
       ''[3] (Source: "Billing", Relevance: 2.3%)\<newline>See invoices.'',
       ''[4] (Source: "FAQ", Relevance: 0.5%)\<newline>Ask support.'']\<close>
    by (simp add: products d show_nat_lt10 digit_char_def)
  from buildPrompt_layout [of ?chunks "\<lambda>x. []" ?history] p
  have cb: "contextBlock (\<lambda>x. []) ?chunks = js_join ''\<newline>\<newline>'' (spec_context_entries 1 ?chunks)"
    and hb: "historyBlock ?history = js_join ''\<newline>'' (map spec_history_line ?history)"
    by simp_all
  have c: \<open>contextBlock (\<lambda>x. []) ?chunks
     = ''[1] (Source: "Password Reset", Relevance: 87.0%)\<newline>Open Settings.\<newline>\<newline>[2] (Source: "Accounts", Relevance: 65.3%)\<newline>Sign in first.\<newline>\<newline>[3] (Source: "Billing", Relevance: 2.3%)\<newline>See invoices.\<newline>\<newline>[4] (Source: "FAQ", Relevance: 0.5%)\<newline>Ask support.''\<close>
    unfolding cb e by simp
  have h: "historyBlock ?history = ''User: hi\<newline>Assistant: hello''"
    unfolding hb by (simp add: spec_history_line_def)
  from buildPrompt_layout [of "[]" "\<lambda>x. []" "[]"]
  have h0: "historyBlock [] = ''No previous conversation.''"
    by simp
  from p c h h0 show ?thesis
    by (intro conjI)
qed


subsection \<open>Fallback\<close>

lemma js_gt_not_js_ge: "js_gt t s \<Longrightarrow> \<not> js_ge s t"
  by (cases s; cases t) simp_all

lemma retrieveTopK_empty:
  assumes "\<forall>doc \<in> set docs. \<not> js_ge (getSimilarity cs q (ec_embedding doc)) thr"
  shows "retrieveTopK cs q docs k thr = []"
proof -
  have "filter (\<lambda>c. js_ge (sc_score c) thr) (map (scoreChunk cs q) docs) = []"
    using assms by (simp add: filter_empty_conv sc_score_scoreChunk)
  then show ?thesis
    by (simp add: retrieveTopK_def js_sort_def js_slice_def)
qed

text \<open>
  C1. When the embedding of the question succeeds and the similarity of the query vector to
  every chunk of the store is below the threshold, \<^verbatim>\<open>runRAGPipeline\<close> returns a result (not
  an error) with \<^verbatim>\<open>fallback\<close> set, no tokens used, no chunk retrieved and no scores, and the
  only provider call of the run is the embedding: the chat model is not called.
\<close>

theorem runRAGPipeline_fallback:
  assumes "embedContent ext userMessage = Inr queryVector"
    and "\<forall>doc \<in> set vectorStore.
           js_gt threshold
             (getSimilarity (cosineSimilarityPackage ext) queryVector (ec_embedding doc))"
  shows "\<exists>r. runRAGPipeline ext userMessage vectorStore history threshold
              = (Inr r, [EmbedContent userMessage])
            \<and> fallback r \<and> tokensUsed r = 0 \<and> retrievedChunks r = 0 \<and> scores r = []
            \<and> (\<forall>prompt. GenerateContent prompt
                  \<notin> set (snd (runRAGPipeline ext userMessage vectorStore history threshold)))"
proof -
  have "retrieveTopK (cosineSimilarityPackage ext) queryVector vectorStore TOP_K_RESULTS threshold
          = []"
    using assms(2) by (intro retrieveTopK_empty) (auto dest: js_gt_not_js_ge)
  with assms(1) show ?thesis
    by (simp add: runRAGPipeline_def)
qed

theorem runRAGPipeline_fallback_witness:
  "fst (runRAGPipeline
      \<lparr>embedContent = (\<lambda>t. Inr (Some [Fin 1, Fin 0])),
       generateContent = (\<lambda>p. Inr \<lparr>response_text = Inr ''generated'', usageMetadata = None\<rparr>),
       cosineSimilarityPackage = cosineSimilarity,
       numberToString = (\<lambda>x. [])\<rparr>
      ''What is the weather?''
      [\<lparr>ec_id = ''b-chunk-1'', ec_docId = ''b'', ec_title = ''B'', ec_chunkIndex = 0,
        ec_content = ''second'', ec_embedding = Some [Fin 0, Fin 1]\<rparr>]
      [] (Fin (65 / 100)))
    = Inr \<lparr>reply = ''I'm sorry, I couldn't find relevant information in my knowledge base to answer your question. For more help, please contact our support team at support@company.com.'',
           tokensUsed = 0, retrievedChunks = 0, scores = [], fallback = True\<rparr>
   \<and> snd (runRAGPipeline
      \<lparr>embedContent = (\<lambda>t. Inr (Some [Fin 1, Fin 0])),
       generateContent = (\<lambda>p. Inr \<lparr>response_text = Inr ''generated'', usageMetadata = None\<rparr>),
       cosineSimilarityPackage = cosineSimilarity,
       numberToString = (\<lambda>x. [])\<rparr>
      ''What is the weather?''
      [\<lparr>ec_id = ''b-chunk-1'', ec_docId = ''b'', ec_title = ''B'', ec_chunkIndex = 0,
        ec_content = ''second'', ec_embedding = Some [Fin 0, Fin 1]\<rparr>]
      [] (Fin (65 / 100)))
    = [EmbedContent ''What is the weather?'']"
proof -
  let ?ext = "\<lparr>embedContent = (\<lambda>t. Inr (Some [Fin 1, Fin 0])),
       generateContent = (\<lambda>p. Inr \<lparr>response_text = Inr ''generated'', usageMetadata = None\<rparr>),
       cosineSimilarityPackage = cosineSimilarity,
       numberToString = (\<lambda>x. [])\<rparr>"
  let ?store = "[\<lparr>ec_id = ''b-chunk-1'', ec_docId = ''b'', ec_title = ''B'', ec_chunkIndex = 0,
        ec_content = ''second'', ec_embedding = Some [Fin 0, Fin 1]\<rparr>]"
  have e: "embedContent ?ext ''What is the weather?'' = Inr (Some [Fin 1, Fin 0])"
    by simp
  have b: "\<forall>doc \<in> set ?store.
           js_gt (Fin (65 / 100))
             (getSimilarity (cosineSimilarityPackage ?ext) (Some [Fin 1, Fin 0]) (ec_embedding doc))"
    by (simp add: getSimilarity_def cosineSimilarity_def dotProduct_def magnitude_def
          js_nth_def isNaN_def upt_rec)
  from runRAGPipeline_fallback [OF e b, of "[]"]
  obtain r where r: "runRAGPipeline ?ext ''What is the weather?'' ?store [] (Fin (65 / 100))
                       = (Inr r, [EmbedContent ''What is the weather?''])"
    and f: "fallback r" "tokensUsed r = 0" "retrievedChunks r = 0" "scores r = []"
    by blast
  have "reply r = ''I'm sorry, I couldn't find relevant information in my knowledge base to answer your question. For more help, please contact our support team at support@company.com.''"
    using r by (auto simp: runRAGPipeline_def Let_def split: if_splits sum.splits)
  with f have "r = \<lparr>reply = ''I'm sorry, I couldn't find relevant information in my knowledge base to answer your question. For more help, please contact our support team at support@company.com.'',
           tokensUsed = 0, retrievedChunks = 0, scores = [], fallback = True\<rparr>"
    by (cases r) simp
  with r show ?thesis by simp
qed
section \<open>Properties of the chat handler\<close>


lemma runRAGPipeline_error_iff:
  "(\<exists>err. fst (runRAGPipeline ext m store history thr) = Inl err)
     \<longleftrightarrow> (\<exists>e. embedContent ext m = Inl e)
         \<or> (\<exists>q. embedContent ext m = Inr q
               \<and> retrieveTopK (cosineSimilarityPackage ext) q store TOP_K_RESULTS thr \<noteq> []
               \<and> (case generateContent ext
                           (buildPrompt (numberToString ext)
                              (retrieveTopK (cosineSimilarityPackage ext) q store TOP_K_RESULTS thr)
                              history m) of
                     Inl e \<Rightarrow> True
                   | Inr response \<Rightarrow> (case response_text response of Inl e \<Rightarrow> True | Inr t \<Rightarrow> False)))"
  by (auto simp: runRAGPipeline_def Let_def split: sum.splits)


text \<open>
  After a request that passes validation the session exists, whatever the pipeline did: an
  id not seen before is given an empty session before the pipeline runs.
\<close>

lemma sessionExists_addMessage: "sessionExists (addMessage s sid r c t) sid"
  by (auto simp: sessionExists_def addMessage_def Let_def fmlookup_dom_iff split: option.splits)

lemma chat_handler_session_exists:
  assumes "nonempty_string (body_sessionId body) = Some sid"
    and "nonempty_string (body_message body) = Some msg"
    and "0 < length (js_trim msg)" and "length (js_trim msg) \<le> 2000"
  shows "sessionExists (fst (snd (chat_handler ext store thr clk sessions body))) sid"
proof -
  define sessions1 where
    "sessions1 = (if \<not> sessionExists sessions sid then createSession sessions sid else sessions)"
  obtain outcome calls where
    run: "runRAGPipeline ext (js_trim msg) store (getHistory sessions1 sid) thr = (outcome, calls)"
    by (cases "runRAGPipeline ext (js_trim msg) store (getHistory sessions1 sid) thr")
  have ex: "sessionExists sessions1 sid"
    by (simp add: sessions1_def sessionExists_def createSession_def)
  have "chat_handler ext store thr clk sessions body =
      (case outcome of
         Inr r \<Rightarrow> (ChatJson r (t_end clk - t_start clk),
                   persist sid sessions1
                     \<lparr>ex_message = js_trim msg, ex_reply = reply r,
                      ex_user_time = t_user clk, ex_model_time = t_model clk\<rparr>,
                   calls)
       | Inl err \<Rightarrow> (classify_error err, sessions1, calls))"
    using assms run
    by (simp add: chat_handler_def Let_def sessions1_def [symmetric])
  then show ?thesis
    using ex by (cases outcome) (simp_all add: persist_def sessionExists_addMessage)
qed


section \<open>Properties of the chunking\<close>

subsection \<open>Runs of the loop\<close>

lemma js_slice_window:
  assumes "0 \<le> start" "start \<le> fin" "fin \<le> int (length xs)"
  shows "js_slice xs start (Some fin) = take (nat fin - nat start) (drop (nat start) xs)"
  using assms by (simp add: js_slice_def js_index_def Let_def min_def)

lemma set_js_slice: "set (js_slice xs start fin) \<subseteq> set xs"
proof -
  have "set (take n (drop k xs)) \<subseteq> set xs" for n k
    using set_take_subset [of n "drop k xs"] set_drop_subset [of k xs] by blast
  then show ?thesis
    by (simp add: js_slice_def Let_def)
qed

lemma chunk_loop_done:
  "\<not> start < int (length text) \<Longrightarrow> chunk_loop text sz ov start chunks = Some chunks"
  by (subst chunk_loop.simps) simp

lemma window_loop_done:
  "\<not> start < int (length text) \<Longrightarrow> window_loop text sz ov start ws = Some ws"
  by (subst window_loop.simps) simp

lemma chunk_loop_last:
  "start < int (length text) \<Longrightarrow> int (length text) \<le> start + sz \<Longrightarrow>
     chunk_loop text sz ov start chunks
       = Some (chunks @ [js_trim (js_slice text start (Some (int (length text))))])"
  by (subst chunk_loop.simps) (simp add: Let_def min_def)

lemma window_loop_last:
  "start < int (length text) \<Longrightarrow> int (length text) \<le> start + sz \<Longrightarrow>
     window_loop text sz ov start ws
       = Some (ws @ [js_slice text start (Some (int (length text)))])"
  by (subst window_loop.simps) (simp add: Let_def min_def)

lemma chunk_loop_step:
  "start < int (length text) \<Longrightarrow> start + sz < int (length text) \<Longrightarrow>
     chunk_loop text sz ov start chunks
       = chunk_loop text sz ov (start + (sz - ov))
           (chunks @ [js_trim (js_slice text start (Some (start + sz)))])"
  by (subst chunk_loop.simps) (simp add: Let_def min_def)

lemma window_loop_step:
  "start < int (length text) \<Longrightarrow> start + sz < int (length text) \<Longrightarrow>
     window_loop text sz ov start ws
       = window_loop text sz ov (start + (sz - ov))
           (ws @ [js_slice text start (Some (start + sz))])"
  by (subst window_loop.simps) (simp add: Let_def min_def)

lemma loops_from:
  assumes "0 \<le> ov" "ov < sz" "0 \<le> start" "start + ov \<le> int (length text)"
  shows "\<exists>ws. window_loop text sz ov start acc = Some (acc @ ws)
           \<and> chunk_loop text sz ov start (map js_trim acc) = Some (map js_trim (acc @ ws))
           \<and> concat (map (drop (nat ov)) ws) = drop (nat (start + ov)) text
           \<and> (start < int (length text) \<longrightarrow> ws \<noteq> [] \<and> suffix (last ws) text)
           \<and> (\<forall>w \<in> set ws. set w \<subseteq> set text)"
  using assms(3,4)
proof (induction "nat (int (length text) - start)" arbitrary: start acc rule: less_induct)
  case less
  note ov = assms(1,2)
  show ?case
  proof (cases "start < int (length text)")
    case False
    with less.prems ov have "drop (nat (start + ov)) text = []"
      by simp
    with False show ?thesis
      by (simp add: window_loop_done chunk_loop_done)
  next
    case True
    show ?thesis
    proof (cases "int (length text) \<le> start + sz")
      case last: True
      let ?w = "js_slice text start (Some (int (length text)))"
      have w: "?w = drop (nat start) text"
        using True less.prems by (simp add: js_slice_window)
      have "drop (nat ov) ?w = drop (nat (start + ov)) text"
        using ov less.prems by (simp add: w nat_add_distrib add.commute)
      moreover have "suffix ?w text"
        by (simp add: w suffix_drop)
      ultimately show ?thesis
        using True last
        by (intro exI [of _ "[?w]"]) (simp add: window_loop_last chunk_loop_last set_js_slice)
    next
      case more: False
      let ?w = "js_slice text start (Some (start + sz))"
      let ?start' = "start + (sz - ov)"
      have "nat (start + sz) - nat start = nat sz"
        using less.prems ov by linarith
      then have w: "?w = take (nat sz) (drop (nat start) text)"
        using more less.prems ov by (simp add: js_slice_window)
      have "nat (int (length text) - ?start') < nat (int (length text) - start)"
        using ov True by linarith
      moreover have "0 \<le> ?start'" "?start' + ov \<le> int (length text)"
        using ov more less.prems by linarith+
      ultimately obtain ws where
        ws: "window_loop text sz ov ?start' (acc @ [?w]) = Some ((acc @ [?w]) @ ws)"
            "chunk_loop text sz ov ?start' (map js_trim (acc @ [?w]))
               = Some (map js_trim ((acc @ [?w]) @ ws))"
            "concat (map (drop (nat ov)) ws) = drop (nat (?start' + ov)) text"
            "?start' < int (length text) \<longrightarrow> ws \<noteq> [] \<and> suffix (last ws) text"
            "\<forall>w \<in> set ws. set w \<subseteq> set text"
        using less.hyps [of ?start' "acc @ [?w]"] by blast
      have lt: "?start' < int (length text)"
        using ov more by linarith
      have "drop (nat ov) ?w = take (nat sz - nat ov) (drop (nat ov + nat start) text)"
        by (simp add: w drop_take)
      also have "nat ov + nat start = nat (start + ov)"
        using ov less.prems by linarith
      finally have dw: "drop (nat ov) ?w = take (nat sz - nat ov) (drop (nat (start + ov)) text)" .
      have "nat (?start' + ov) = (nat sz - nat ov) + nat (start + ov)"
        using ov less.prems by linarith
      with ws(3) have "concat (map (drop (nat ov)) ws)
                         = drop (nat sz - nat ov) (drop (nat (start + ov)) text)"
        by (simp only: drop_drop)
      with dw have "concat (map (drop (nat ov)) (?w # ws))
                      = take (nat sz - nat ov) (drop (nat (start + ov)) text)
                        @ drop (nat sz - nat ov) (drop (nat (start + ov)) text)"
        by (simp only: list.map concat.simps)
      then have "concat (map (drop (nat ov)) (?w # ws)) = drop (nat (start + ov)) text"
        by (simp only: append_take_drop_id)
      moreover have "window_loop text sz ov start acc = Some (acc @ ?w # ws)"
        using True more ws(1) by (simp add: window_loop_step)
      moreover have "chunk_loop text sz ov start (map js_trim acc)
                       = Some (map js_trim (acc @ ?w # ws))"
        using True more ws(2) by (simp add: chunk_loop_step)
      moreover have "suffix (last (?w # ws)) text"
        using ws(4) lt by simp
      moreover have "\<forall>w \<in> set (?w # ws). set w \<subseteq> set text"
        using ws(5) by (simp add: set_js_slice)
      ultimately show ?thesis
        by (intro exI [of _ "?w # ws"]) simp
    qed
  qed
qed

lemma loops_total:
  assumes "0 \<le> ov" "ov < sz"
  shows "\<exists>ws. window_loop text sz ov 0 [] = Some ws
           \<and> chunkText text sz ov = Some (map js_trim ws)
           \<and> remove_overlap (nat ov) ws = text
           \<and> (text \<noteq> [] \<longrightarrow> ws \<noteq> [] \<and> suffix (last ws) text)
           \<and> (\<forall>w \<in> set ws. set w \<subseteq> set text)"
proof (cases "int (length text) \<le> sz")
  case True
  show ?thesis
  proof (cases "text = []")
    case True
    then show ?thesis
      by (simp add: chunkText_def window_loop_done chunk_loop_done)
  next
    case False
    have "js_slice text 0 (Some (int (length text))) = text"
      by (simp add: js_slice_window)
    with False True show ?thesis
      by (simp add: chunkText_def window_loop_last chunk_loop_last)
  qed
next
  case False
  let ?w = "js_slice text 0 (Some sz)"
  from False assms have pos: "0 < int (length text)" by linarith
  have w: "?w = take (nat sz) text"
    using False assms by (simp add: js_slice_window)
  from loops_from [of ov sz "sz - ov" "text" "[?w]"] assms False
  obtain ws where
    ws: "window_loop text sz ov (sz - ov) [?w] = Some ([?w] @ ws)"
        "chunk_loop text sz ov (sz - ov) (map js_trim [?w]) = Some (map js_trim ([?w] @ ws))"
        "concat (map (drop (nat ov)) ws) = drop (nat (sz - ov + ov)) text"
        "sz - ov < int (length text) \<longrightarrow> ws \<noteq> [] \<and> suffix (last ws) text"
        "\<forall>w \<in> set ws. set w \<subseteq> set text"
    by auto
  have "sz - ov < int (length text)"
    using False assms by linarith
  with ws(4) have l: "ws \<noteq> []" "suffix (last ws) text"
    by simp_all
  have "window_loop text sz ov 0 [] = Some (?w # ws)"
    using window_loop_step [of 0 "text" sz ov "[]"] pos False ws(1) by simp
  moreover have "chunkText text sz ov = Some (map js_trim (?w # ws))"
    using chunk_loop_step [of 0 "text" sz ov "[]"] pos False ws(2) by (simp add: chunkText_def)
  moreover have "remove_overlap (nat ov) (?w # ws) = text"
    using ws(3) by (simp add: w)
  moreover have "\<forall>w \<in> set (?w # ws). set w \<subseteq> set text"
    using ws(5) by (simp add: set_js_slice)
  ultimately show ?thesis
    using l by (intro exI [of _ "?w # ws"]) simp
qed

subsection \<open>Parameters with no progress\<close>

lemma chunk_loop_Some_progress:
  assumes "chunk_loop text sz ov start chunks = Some result"
  shows "\<not> (sz \<le> ov \<and> start \<le> 0 \<and> sz < int (length text) \<and> text \<noteq> [])"
proof (rule chunk_loop.raw_induct
    [where P = "\<lambda>t s v p cs r. \<not> (s \<le> v \<and> p \<le> 0 \<and> s < int (length t) \<and> t \<noteq> [])",
     OF _ assms])
  fix f :: "string \<Rightarrow> int \<Rightarrow> int \<Rightarrow> int \<Rightarrow> string list \<Rightarrow> string list option"
  fix t s v p cs r
  assume IH: "\<And>t s v p cs r. f t s v p cs = Some r \<Longrightarrow>
                \<not> (s \<le> v \<and> p \<le> 0 \<and> s < int (length t) \<and> t \<noteq> [])"
    and body: "(if p < int (length t)
                then (let fin = min (p + s) (int (length t));
                          chunks1 = cs @ [js_trim (js_slice t p (Some fin))]
                      in if fin = int (length t) then Some chunks1
                         else f t s v (p + (s - v)) chunks1)
                else Some cs) = Some r"
  show "\<not> (s \<le> v \<and> p \<le> 0 \<and> s < int (length t) \<and> t \<noteq> [])"
  proof
    assume deg: "s \<le> v \<and> p \<le> 0 \<and> s < int (length t) \<and> t \<noteq> []"
    then have "0 < int (length t)"
      by simp
    with deg have "p < int (length t)" "p + s < int (length t)"
      by linarith+
    with body have "f t s v (p + (s - v)) (cs @ [js_trim (js_slice t p (Some (p + s)))]) = Some r"
      by (simp add: Let_def min_def)
    then have "\<not> (s \<le> v \<and> p + (s - v) \<le> 0 \<and> s < int (length t) \<and> t \<noteq> [])"
      by (rule IH)
    with deg show False by auto
  qed
qed

lemma chunk_loop_never_returns:
  assumes "sz \<le> ov" "start \<le> 0" "sz < int (length text)" "text \<noteq> []"
  shows "chunk_loop text sz ov start chunks = None"
proof (cases "chunk_loop text sz ov start chunks")
  case None
  then show ?thesis .
next
  case (Some result)
  with assms show ?thesis
    using chunk_loop_Some_progress [of "text" sz ov start chunks result] by simp
qed

lemma chunkText_degenerate:
  assumes "sz \<le> ov"
  shows "chunkText text sz ov =
           (if text = [] then Some []
            else if int (length text) \<le> sz then Some [js_trim text]
            else None)"
proof -
  have "js_slice text 0 (Some (int (length text))) = text"
    by (simp add: js_slice_window)
  then show ?thesis
    using assms
    by (simp add: chunkText_def chunk_loop_done chunk_loop_last chunk_loop_never_returns)
qed

lemma js_trim_no_space:
  assumes "\<forall>c \<in> set s. \<not> is_js_space c"
  shows "js_trim s = s"
proof -
  have keep: "dropWhile is_js_space xs = xs" if "\<forall>c \<in> set xs. \<not> is_js_space c" for xs
    using that by (cases xs) simp_all
  from assms have "dropWhile is_js_space s = s"
    by (rule keep)
  moreover from assms have "dropWhile is_js_space (rev s) = rev s"
    by (intro keep) simp
  ultimately show ?thesis
    by (simp add: js_trim_def)
qed

text \<open>
  C3 as stated fails: \<^verbatim>\<open>chunkText\<close> has no check of its parameters and no error exit. With
  size 1 and overlap 1 a text of one character comes back as one chunk, and on a text of
  two characters the loop never returns.
\<close>

theorem chunkText_degenerate_counterexample:
  "chunkText ''a'' 1 1 = Some [''a''] \<and> chunkText ''ab'' 1 1 = None"
  by (simp add: chunkText_degenerate js_trim_def is_js_space_def)

text \<open>
  C3, amended. \<^verbatim>\<open>chunkText\<close> raises no configuration error. With the sizes the ingestion
  uses (1500 and 200) it returns for every text. With \<open>size \<le> overlap\<close> it returns
  normally whenever the first window reaches the end of the text: no chunk for the empty
  text, and the one trimmed chunk for a text no longer than \<open>size\<close>.
\<close>

theorem chunkText_no_configuration_check:
  "(\<exists>chunks. chunkText text CHUNK_SIZE_CHARS CHUNK_OVERLAP_CHARS = Some chunks)
   \<and> (sz \<le> ov \<longrightarrow> chunkText [] sz ov = Some [])
   \<and> (sz \<le> ov \<and> text \<noteq> [] \<and> int (length text) \<le> sz \<longrightarrow>
        chunkText text sz ov = Some [js_trim text])"
proof -
  have "\<exists>chunks. chunkText text CHUNK_SIZE_CHARS CHUNK_OVERLAP_CHARS = Some chunks"
    using loops_total [of CHUNK_OVERLAP_CHARS CHUNK_SIZE_CHARS "text"]
    by (auto simp: CHUNK_SIZE_CHARS_def CHUNK_OVERLAP_CHARS_def)
  then show ?thesis
    by (simp add: chunkText_degenerate)
qed

theorem chunkText_no_configuration_check_witness:
  "(1 :: int) \<le> 1 \<and> chunkText [] 1 1 = Some []
   \<and> ''a'' \<noteq> [] \<and> int (length ''a'') \<le> 1 \<and> chunkText ''a'' 1 1 = Some [''a'']"
  using chunkText_no_configuration_check [of "''a''" 1 1]
  by (simp add: js_trim_def is_js_space_def)

text \<open>
  C4 as stated fails, because every chunk is trimmed: the chunks of \<^verbatim>\<open>a b\<close> with size 2 and
  overlap 1 are \<^verbatim>\<open>a\<close> and \<^verbatim>\<open>b\<close>, which do not give the text back, and the last chunk of a
  text that ends in a space does not end where the text ends.
\<close>

theorem chunkText_coverage_counterexample:
  "chunkText ''a b'' 2 1 = Some [''a'', ''b'']
   \<and> remove_overlap 1 [''a'', ''b''] \<noteq> ''a b''
   \<and> chunkText ''ab '' 2 1 = Some [''ab'', ''b'']
   \<and> \<not> suffix ''b'' ''ab ''"
  by (simp add: chunkText_def chunk_loop.simps js_slice_def js_index_def js_trim_def
        is_js_space_def suffix_def)

text \<open>
  C4, amended. For \<open>0 \<le> overlap < size\<close>, \<^verbatim>\<open>chunkText\<close> returns, and its chunks are the
  trimmed windows of the loop. The windows, concatenated with the overlap regions
  de-duplicated, are the text exactly, and the last window ends where the text ends. For
  a text without white space the chunks are the windows themselves.
\<close>

theorem chunkText_window_coverage:
  assumes "0 \<le> ov" and "ov < sz"
  shows "\<exists>windows. window_loop text sz ov 0 [] = Some windows
           \<and> chunkText text sz ov = Some (map js_trim windows)
           \<and> remove_overlap (nat ov) windows = text
           \<and> (text \<noteq> [] \<longrightarrow> windows \<noteq> [] \<and> suffix (last windows) text)
           \<and> ((\<forall>c \<in> set text. \<not> is_js_space c) \<longrightarrow> chunkText text sz ov = Some windows)"
proof -
  from loops_total [OF assms, of "text"] obtain ws where
    ws: "window_loop text sz ov 0 [] = Some ws"
        "chunkText text sz ov = Some (map js_trim ws)"
        "remove_overlap (nat ov) ws = text"
        "text \<noteq> [] \<longrightarrow> ws \<noteq> [] \<and> suffix (last ws) text"
        "\<forall>w \<in> set ws. set w \<subseteq> set text"
    by blast
  have "map js_trim ws = ws" if "\<forall>c \<in> set text. \<not> is_js_space c"
  proof -
    have "js_trim w = w" if "w \<in> set ws" for w
      using that ws(5) \<open>\<forall>c \<in> set text. \<not> is_js_space c\<close>
      by (intro js_trim_no_space) blast
    then show ?thesis
      by (simp add: map_idI)
  qed
  with ws show ?thesis
    by (intro exI [of _ ws]) simp
qed

theorem chunkText_window_coverage_witness:
  "window_loop ''a b cd'' 3 1 0 [] = Some [''a b'', ''b c'', ''cd'']
   \<and> chunkText ''a b cd'' 3 1 = Some [''a b'', ''b c'', ''cd'']
   \<and> remove_overlap 1 [''a b'', ''b c'', ''cd''] = ''a b cd''
   \<and> window_loop ''a b'' 2 1 0 [] = Some [''a '', '' b'']
   \<and> chunkText ''a b'' 2 1 = Some [''a'', ''b'']
   \<and> remove_overlap 1 [''a '', '' b''] = ''a b''"
proof -
  have a: "window_loop ''a b cd'' 3 1 0 [] = Some [''a b'', ''b c'', ''cd'']"
    by (simp add: window_loop.simps js_slice_def js_index_def)
  have b: "window_loop ''a b'' 2 1 0 [] = Some [''a '', '' b'']"
    by (simp add: window_loop.simps js_slice_def js_index_def)
  from chunkText_window_coverage [of 1 3 "''a b cd''"] a
  have "chunkText ''a b cd'' 3 1 = Some (map js_trim [''a b'', ''b c'', ''cd''])"
       "remove_overlap (nat 1) [''a b'', ''b c'', ''cd''] = ''a b cd''"
    by auto
  moreover from chunkText_window_coverage [of 1 2 "''a b''"] b
  have "chunkText ''a b'' 2 1 = Some (map js_trim [''a '', '' b''])"
       "remove_overlap (nat 1) [''a '', '' b''] = ''a b''"
    by auto
  ultimately show ?thesis
    using a b by (simp add: js_trim_def is_js_space_def)
qed
end
